theory Spec2Isabelle
  imports Main
begin

section \<open>Role management (role\_management.py)\<close>

text \<open>
  The role model of \<^verbatim>\<open>role_management.py\<close>: \<^verbatim>\<open>RoleType\<close> is the enum, \<^verbatim>\<open>UserRole\<close>
  and \<^verbatim>\<open>RolePermissions\<close> are the pydantic models. Python's \<^verbatim>\<open>list(all_permissions)\<close>
  turns a set into a list in an unspecified order, so the flattened permissions are kept
  as a set; a dict from flag names to booleans is an association list in source order.
\<close>

datatype RoleType = REALM | CLIENT

record UserRole =
  name :: string
  type :: RoleType
  client_id :: "string option"
  permissions :: "string list"
  description :: "string option"

record RolePermissions =
  rp_roles :: "UserRole list"
  rp_permissions :: "string set"
  access_levels :: "(string \<times> bool) list"

text \<open>
  The introspection payload \<^verbatim>\<open>token_info\<close>: the keys \<^verbatim>\<open>realm_access\<close> and
  \<^verbatim>\<open>resource_access\<close> may be absent (\<open>None\<close>); an access object may lack its
  \<^verbatim>\<open>roles\<close> key, which \<^verbatim>\<open>.get("roles", [])\<close> reads as the empty list;
  \<^verbatim>\<open>resource_access\<close> is a dict from client ids to access objects, iterated in
  insertion order.
\<close>

record access_obj =
  access_roles :: "string list option"

record token_info =
  realm_access :: "access_obj option"
  resource_access :: "(string \<times> access_obj) list option"

definition get_roles :: "access_obj \<Rightarrow> string list" where
  "get_roles a = (case access_roles a of None \<Rightarrow> [] | Some rs \<Rightarrow> rs)"

subsection \<open>\<^verbatim>\<open>str.title()\<close>\<close>

text \<open>
  A character of a string is a code point below 256; the ASCII characters are those below
  128. \<^verbatim>\<open>str.title()\<close> walks the string once: a cased character that follows an uncased one
  (or starts the string) is put in title case, a cased character that follows a cased one
  in lower case. In a string of ASCII characters the letters are the cased characters,
  title case is upper case, and every other character is uncased and kept. For a string
  with a character outside ASCII the result is read from the Unicode character database
  (its mappings may give several characters for one, and characters above 255); that
  reading is the parameter \<open>unicode_title\<close>.
\<close>

definition ascii_lowercase :: string where
  "ascii_lowercase = ''abcdefghijklmnopqrstuvwxyz''"

definition ascii_uppercase :: string where
  "ascii_uppercase = ''ABCDEFGHIJKLMNOPQRSTUVWXYZ''"

definition char_upper :: "char \<Rightarrow> char" where
  "char_upper c =
     (case map_of (zip ascii_lowercase ascii_uppercase) c of Some u \<Rightarrow> u | None \<Rightarrow> c)"

definition char_lower :: "char \<Rightarrow> char" where
  "char_lower c =
     (case map_of (zip ascii_uppercase ascii_lowercase) c of Some l \<Rightarrow> l | None \<Rightarrow> c)"

definition is_cased :: "char \<Rightarrow> bool" where
  "is_cased c = (c \<in> set (ascii_lowercase @ ascii_uppercase))"

fun title_from :: "bool \<Rightarrow> string \<Rightarrow> string" where
  "title_from previous_is_cased [] = []"
| "title_from previous_is_cased (c # cs) =
     (if previous_is_cased then char_lower c else char_upper c) # title_from (is_cased c) cs"

definition is_ascii :: "char \<Rightarrow> bool" where
  "is_ascii c = ((of_char c :: nat) < 128)"

definition str_title :: "(string \<Rightarrow> string) \<Rightarrow> string \<Rightarrow> string" where
  "str_title unicode_title s =
     (if list_all is_ascii s then title_from False s else unicode_title s)"

subsection \<open>The static tables\<close>

definition ROLE_PERMISSIONS :: "((string \<times> RoleType) \<times> string list) list" where
  "ROLE_PERMISSIONS =
    [((''user'', REALM),
        [''profile:read'', ''profile:update'', ''preferences:read'', ''preferences:update'']),
     ((''admin'', REALM),
        [''profile:read'', ''profile:update'', ''preferences:read'', ''preferences:update'',
         ''users:read'', ''users:manage'', ''system:admin'']),
     ((''moderator'', REALM),
        [''profile:read'', ''profile:update'', ''preferences:read'', ''preferences:update'',
         ''content:moderate'', ''users:read'']),
     ((''dashboard-user'', CLIENT), [''dashboard:read'', ''analytics:view'']),
     ((''dashboard-admin'', CLIENT),
        [''dashboard:read'', ''dashboard:manage'', ''analytics:view'', ''analytics:export'']),
     ((''api-consumer'', CLIENT), [''api:read'', ''api:write''])]"

definition ROLE_DESCRIPTIONS :: "((string \<times> RoleType) \<times> string) list" where
  "ROLE_DESCRIPTIONS =
    [((''user'', REALM), ''Standard user with basic access''),
     ((''admin'', REALM), ''System administrator with full access''),
     ((''moderator'', REALM), ''Content moderator with limited admin access''),
     ((''dashboard-user'', CLIENT), ''Dashboard user with read access''),
     ((''dashboard-admin'', CLIENT), ''Dashboard administrator''),
     ((''api-consumer'', CLIENT), ''API access for external integrations'')]"

text \<open>
  \<^verbatim>\<open>get_role_permissions\<close> takes the client id and does not use it: the table is keyed
  by role name and role type. Both lookups are \<^verbatim>\<open>dict.get\<close> with a default, so neither
  has a failing branch.
\<close>

definition get_role_permissions :: "string \<Rightarrow> RoleType \<Rightarrow> string option \<Rightarrow> string list" where
  "get_role_permissions role_name role_type cid =
     (case map_of ROLE_PERMISSIONS (role_name, role_type) of
        Some ps \<Rightarrow> ps
      | None \<Rightarrow> [])"

definition get_role_description :: "(string \<Rightarrow> string) \<Rightarrow> string \<Rightarrow> RoleType \<Rightarrow> string" where
  "get_role_description unicode_title role_name role_type =
     (case map_of ROLE_DESCRIPTIONS (role_name, role_type) of
        Some d \<Rightarrow> d
      | None \<Rightarrow> str_title unicode_title role_name @ '' role'')"

subsection \<open>Extraction of the detailed roles\<close>

definition realm_default_roles :: "string list" where
  "realm_default_roles = [''default-roles-master'', ''offline_access'', ''uma_authorization'']"

definition client_default_roles :: "string list" where
  "client_default_roles = [''uma_protection'']"

definition realm_role :: "(string \<Rightarrow> string) \<Rightarrow> string \<Rightarrow> UserRole" where
  "realm_role unicode_title role_name =
     \<lparr>name = role_name, type = REALM, client_id = None,
      permissions = get_role_permissions role_name REALM None,
      description = Some (get_role_description unicode_title role_name REALM)\<rparr>"

definition client_role :: "(string \<Rightarrow> string) \<Rightarrow> string \<Rightarrow> string \<Rightarrow> UserRole" where
  "client_role unicode_title cid role_name =
     \<lparr>name = role_name, type = CLIENT, client_id = Some cid,
      permissions = get_role_permissions role_name CLIENT (Some cid),
      description = Some (get_role_description unicode_title role_name CLIENT)\<rparr>"

definition extract_realm_roles :: "(string \<Rightarrow> string) \<Rightarrow> token_info \<Rightarrow> UserRole list" where
  "extract_realm_roles unicode_title ti =
     (case realm_access ti of
        None \<Rightarrow> []
      | Some ra \<Rightarrow>
          map (realm_role unicode_title) (filter (\<lambda>r. r \<notin> set realm_default_roles) (get_roles ra)))"

definition extract_client_roles :: "(string \<Rightarrow> string) \<Rightarrow> token_info \<Rightarrow> UserRole list" where
  "extract_client_roles unicode_title ti =
     (case resource_access ti of
        None \<Rightarrow> []
      | Some cs \<Rightarrow>
          concat (map (\<lambda>(cid, ca).
            map (client_role unicode_title cid) (filter (\<lambda>r. r \<notin> set client_default_roles) (get_roles ca))) cs))"

definition extract_detailed_roles :: "(string \<Rightarrow> string) \<Rightarrow> token_info \<Rightarrow> UserRole list" where
  "extract_detailed_roles unicode_title ti =
     extract_realm_roles unicode_title ti @ extract_client_roles unicode_title ti"

subsection \<open>Aggregation over role objects\<close>

definition any_permission :: "string \<Rightarrow> UserRole list \<Rightarrow> bool" where
  "any_permission p rs = list_ex (\<lambda>r. p \<in> set (permissions r)) rs"

definition calculate_user_permissions :: "UserRole list \<Rightarrow> RolePermissions" where
  "calculate_user_permissions rs =
     \<lparr>rp_roles = rs,
      rp_permissions = set (concat (map permissions rs)),
      access_levels =
        [(''can_view_admin'', any_permission ''system:admin'' rs),
         (''can_manage_users'', any_permission ''users:manage'' rs),
         (''can_moderate'', any_permission ''content:moderate'' rs),
         (''can_view_analytics'', any_permission ''analytics:view'' rs),
         (''can_export_data'', any_permission ''analytics:export'' rs),
         (''can_access_api'',
            list_ex (\<lambda>r. ''api:read'' \<in> set (permissions r) \<or> ''api:write'' \<in> set (permissions r)) rs),
         (''is_admin'', list_ex (\<lambda>r. name r = ''admin'' \<and> type r = REALM) rs),
         (''is_moderator'', list_ex (\<lambda>r. name r = ''moderator'') rs)]\<rparr>"

text \<open>
  \<^verbatim>\<open>get_roles_for_frontend\<close> is the full-claims path: extraction, then aggregation. Of
  the dict it returns, the model keeps the role list, the permissions, the access levels
  and the simple role names.
\<close>

record frontend_roles =
  fr_roles :: "UserRole list"
  fr_permissions :: "string set"
  fr_access_levels :: "(string \<times> bool) list"
  simple_roles :: "string list"

definition get_roles_for_frontend :: "(string \<Rightarrow> string) \<Rightarrow> token_info \<Rightarrow> frontend_roles" where
  "get_roles_for_frontend unicode_title ti =
     (let detailed_roles = extract_detailed_roles unicode_title ti;
          user_permissions = calculate_user_permissions detailed_roles
      in \<lparr>fr_roles = detailed_roles,
          fr_permissions = rp_permissions user_permissions,
          fr_access_levels = access_levels user_permissions,
          simple_roles = map name detailed_roles\<rparr>)"

definition get_user_permissions_from_roles :: "string list \<Rightarrow> string set" where
  "get_user_permissions_from_roles role_names =
     set (concat (map (\<lambda>role_name.
       (let role_permissions = get_role_permissions role_name REALM None
        in if role_permissions \<noteq> [] then role_permissions
           else get_role_permissions role_name CLIENT None)) role_names))"

section \<open>Exceptions and the user model (models.py)\<close>

text \<open>
  Exceptions are values. \<open>HTTPException\<close> carries the status code and the detail;
  \<open>ValidationError\<close> is pydantic's; \<open>OverflowError\<close> is the one \<^verbatim>\<open>datetime\<close> and
  \<^verbatim>\<open>timedelta\<close> raise; \<open>OtherException\<close> stands for every other exception
  class, with the text \<^verbatim>\<open>str(e)\<close> gives.
\<close>

datatype exn =
    HTTPException nat string
  | KeycloakAuthenticationError string
  | ValueError string
  | IntegrityError
  | ValidationError
  | OverflowError
  | OtherException string

record UserInfo =
  username :: string
  email :: "string option"
  first_name :: "string option"
  last_name :: "string option"
  roles :: "string list"
  user_id :: string

section \<open>Authentication against the identity provider (auth.py)\<close>

text \<open>
  The role list \<^verbatim>\<open>authenticate_user\<close> builds: the realm roles and then the client
  roles, each filtered by its own literal list, with the role \<^verbatim>\<open>user\<close> appended for
  the development user.
\<close>

definition filtered_realm_roles :: "token_info \<Rightarrow> string list" where
  "filtered_realm_roles ti =
     (case realm_access ti of
        None \<Rightarrow> []
      | Some ra \<Rightarrow>
          filter (\<lambda>role. role \<notin> set [''default-roles-master'', ''offline_access'', ''uma_authorization''])
            (get_roles ra))"

definition filtered_client_roles :: "token_info \<Rightarrow> string list" where
  "filtered_client_roles ti =
     (case resource_access ti of
        None \<Rightarrow> []
      | Some cs \<Rightarrow>
          concat (map (\<lambda>(cid, ca).
            filter (\<lambda>role. role \<notin> set [''uma_protection'']) (get_roles ca)) cs))"

definition authenticated_roles :: "string \<Rightarrow> token_info \<Rightarrow> string list" where
  "authenticated_roles uname ti =
     (let rs = filtered_realm_roles ti @ filtered_client_roles ti
      in if uname = ''37099475'' \<and> ''user'' \<notin> set rs then rs @ [''user''] else rs)"

text \<open>
  The identity provider is outside the program: the OpenID client is a record of the
  three calls \<^verbatim>\<open>authenticate_user\<close> makes, each answering or raising. The module-level
  handle is \<open>None\<close> when its initialisation failed. The userinfo answer is a dict whose
  keys may be absent.
\<close>

record userinfo =
  preferred_username :: "string option"
  ui_email :: "string option"
  given_name :: "string option"
  family_name :: "string option"
  sub :: "string option"

record keycloak_openid =
  kc_token :: "string \<Rightarrow> string \<Rightarrow> exn + string"
  kc_userinfo :: "string \<Rightarrow> exn + userinfo"
  kc_introspect :: "string \<Rightarrow> exn + token_info"

fun str_contains :: "string \<Rightarrow> string \<Rightarrow> bool" where
  "str_contains needle [] = (needle = [])"
| "str_contains needle (c # cs) =
     (take (length needle) (c # cs) = needle \<or> str_contains needle cs)"

text \<open>
  The body of the \<^verbatim>\<open>try\<close> block. \<^verbatim>\<open>UserInfo\<close> requires \<^verbatim>\<open>user_id\<close> to be a string:
  a userinfo answer without \<^verbatim>\<open>sub\<close> fails pydantic's validation.
\<close>

definition authenticate_user_body :: "keycloak_openid \<Rightarrow> string \<Rightarrow> string \<Rightarrow> exn + UserInfo" where
  "authenticate_user_body kc uname password =
     (case kc_token kc uname password of
        Inl e \<Rightarrow> Inl e
      | Inr access_token \<Rightarrow>
         (case kc_userinfo kc access_token of
            Inl e \<Rightarrow> Inl e
          | Inr ui \<Rightarrow>
             (case kc_introspect kc access_token of
                Inl e \<Rightarrow> Inl e
              | Inr ti \<Rightarrow>
                 (case sub ui of
                    None \<Rightarrow> Inl ValidationError
                  | Some s \<Rightarrow>
                      Inr \<lparr>username = (case preferred_username ui of None \<Rightarrow> uname | Some p \<Rightarrow> p),
                           email = ui_email ui,
                           first_name = given_name ui,
                           last_name = family_name ui,
                           roles = authenticated_roles uname ti,
                           user_id = s\<rparr>))))"

fun exn_str :: "exn \<Rightarrow> string" where
  "exn_str (HTTPException code detail) = detail"
| "exn_str (KeycloakAuthenticationError m) = m"
| "exn_str (ValueError m) = m"
| "exn_str IntegrityError = ''IntegrityError''"
| "exn_str ValidationError = ''validation error for UserInfo''"
| "exn_str OverflowError = ''OverflowError''"
| "exn_str (OtherException m) = m"

fun authenticate_user_except :: "exn \<Rightarrow> exn" where
  "authenticate_user_except (KeycloakAuthenticationError m) = HTTPException 401 ''Invalid credentials''"
| "authenticate_user_except (HTTPException code detail) = HTTPException code detail"
| "authenticate_user_except e =
     (if str_contains ''unauthorized_client'' (exn_str e)
      then HTTPException 500
        ''Keycloak client configuration error. Please check KEYCLOAK_SETUP.md for configuration instructions.''
      else HTTPException 500 ''Authentication service error'')"

definition authenticate_user :: "keycloak_openid option \<Rightarrow> string \<Rightarrow> string \<Rightarrow> exn + UserInfo" where
  "authenticate_user keycloak uname password =
     (case keycloak of
        None \<Rightarrow> Inl (HTTPException 500 ''Keycloak client not initialized'')
      | Some kc \<Rightarrow>
         (case authenticate_user_body kc uname password of
            Inl e \<Rightarrow> Inl (authenticate_user_except e)
          | Inr user_info \<Rightarrow> Inr user_info))"

section \<open>The roles endpoint (main.py, GET /auth/me/roles)\<close>

text \<open>
  The handler works on the flattened role names of the session. Nothing in its \<^verbatim>\<open>try\<close>
  block can raise on a list of strings, so the fallback of the \<^verbatim>\<open>except\<close> clause has
  no branch here.
\<close>

definition names_access_levels :: "string list \<Rightarrow> (string \<times> bool) list" where
  "names_access_levels user_roles =
     [(''can_view_admin'', ''admin'' \<in> set user_roles),
      (''can_manage_users'', ''admin'' \<in> set user_roles),
      (''can_moderate'', ''moderator'' \<in> set user_roles \<or> ''admin'' \<in> set user_roles),
      (''can_view_analytics'',
         list_ex (\<lambda>role. role \<in> set [''admin'', ''analyst'', ''dashboard-admin'']) user_roles),
      (''can_export_data'', list_ex (\<lambda>role. role \<in> set [''admin'', ''dashboard-admin'']) user_roles),
      (''can_access_api'',
         list_ex (\<lambda>role. role \<in> set [''admin'', ''api-consumer'', ''developer'']) user_roles),
      (''is_admin'', ''admin'' \<in> set user_roles),
      (''is_moderator'', ''moderator'' \<in> set user_roles),
      (''is_standard_user'', ''user'' \<in> set user_roles)]"

record role_detail =
  rd_name :: string
  rd_type :: string
  rd_description :: string

record roles_response =
  rr_user_id :: string
  rr_username :: string
  rr_roles :: "string list"
  rr_permissions :: "string set"
  rr_access_levels :: "(string \<times> bool) list"
  rr_role_details :: "role_detail list"

definition get_user_roles_detailed :: "(string \<Rightarrow> string) \<Rightarrow> UserInfo \<Rightarrow> roles_response" where
  "get_user_roles_detailed unicode_title current_user =
     (let user_roles = roles current_user
      in \<lparr>rr_user_id = user_id current_user,
          rr_username = username current_user,
          rr_roles = user_roles,
          rr_permissions = get_user_permissions_from_roles user_roles,
          rr_access_levels = names_access_levels user_roles,
          rr_role_details =
            map (\<lambda>role. \<lparr>rd_name = role, rd_type = ''realm'',
                           rd_description = str_title unicode_title role @ '' role''\<rparr>) user_roles\<rparr>)"

text \<open>
  The two ways from an introspection payload to the access levels: the full-claims path
  aggregates the extracted role objects; the flattened path aggregates the role names
  that login put into the session of user \<open>uname\<close>.
\<close>

definition full_claims_access_levels ::
  "(string \<Rightarrow> string) \<Rightarrow> token_info \<Rightarrow> (string \<times> bool) list" where
  "full_claims_access_levels unicode_title ti =
     fr_access_levels (get_roles_for_frontend unicode_title ti)"

definition flattened_access_levels :: "string \<Rightarrow> token_info \<Rightarrow> (string \<times> bool) list" where
  "flattened_access_levels uname ti = names_access_levels (authenticated_roles uname ti)"

section \<open>Session tokens (auth.py)\<close>

text \<open>
  Claim values are JSON values; a claim set is a dict from claim names to values. Points
  in time are microseconds since the epoch, a \<^verbatim>\<open>timedelta\<close> is a number of microseconds,
  and a JWT carries \<^verbatim>\<open>exp\<close> in whole seconds.

  A \<^verbatim>\<open>datetime\<close> lies between 0001-01-01T00:00:00 and 9999-12-31T23:59:59.999999, a
  \<^verbatim>\<open>timedelta\<close> between minus 999999999 days and 999999999 days, 23:59:59.999999; the
  constructor of a \<^verbatim>\<open>timedelta\<close> and the addition of one to a \<^verbatim>\<open>datetime\<close> raise
  \<^verbatim>\<open>OverflowError\<close> outside these ranges.
\<close>

definition datetime_min :: int where
  "datetime_min = - 62135596800000000"

definition datetime_max :: int where
  "datetime_max = 253402300799999999"

definition timedelta_min :: int where
  "timedelta_min = - 86399999913600000000"

definition timedelta_max :: int where
  "timedelta_max = 86399999999999999999"

definition timedelta_minutes :: "int \<Rightarrow> exn + int" where
  "timedelta_minutes m =
     (if timedelta_min \<le> m * 60000000 \<and> m * 60000000 \<le> timedelta_max
      then Inr (m * 60000000) else Inl OverflowError)"

definition datetime_add :: "int \<Rightarrow> int \<Rightarrow> exn + int" where
  "datetime_add t delta =
     (if datetime_min \<le> t + delta \<and> t + delta \<le> datetime_max
      then Inr (t + delta) else Inl OverflowError)"

datatype json = JNull | JStr string | JInt int | JList "json list"

type_synonym claims = "string \<rightharpoonup> json"

datatype bearer = Unparseable string | Signed claims string

datatype jwt_error = JWTError | ExpiredSignatureError | JWTClaimsError

record settings =
  JWT_SECRET_KEY :: string
  JWT_ACCESS_TOKEN_EXPIRE_MINUTES :: int

definition utc_seconds :: "int \<Rightarrow> int" where
  "utc_seconds t = t div 1000000"

text \<open>
  Modelled from the spec: \<^verbatim>\<open>jwt.encode\<close> and \<^verbatim>\<open>jwt.decode\<close> are functions of the JWT
  library, which is not under src/. Section 4.4 gives their contract: issuing serializes
  and signs the claim set with the process-wide secret; verification fails as invalid if
  the signature check fails or the structure is unparseable, fails as expired if now is
  past \<^verbatim>\<open>exp\<close>, and otherwise returns the embedded claims unchanged. The signing primitive
  is the parameter \<open>sign\<close> (key and claim set to signature); the check recomputes it.
  A claim set without \<^verbatim>\<open>exp\<close> is not past it. The contract is silent on claims of the
  wrong type; as the library does, the model refuses an \<^verbatim>\<open>exp\<close> that is no integer and a
  \<^verbatim>\<open>sub\<close> that is no string.
\<close>

definition jwt_encode :: "(string \<Rightarrow> claims \<Rightarrow> string) \<Rightarrow> claims \<Rightarrow> string \<Rightarrow> bearer" where
  "jwt_encode sign to_encode key = Signed to_encode (sign key to_encode)"

fun validate_sub :: "claims \<Rightarrow> jwt_error + claims" where
  "validate_sub payload =
     (case payload ''sub'' of
        None \<Rightarrow> Inr payload
      | Some (JStr s) \<Rightarrow> Inr payload
      | Some other \<Rightarrow> Inl JWTClaimsError)"

fun validate_exp :: "int \<Rightarrow> claims \<Rightarrow> jwt_error + claims" where
  "validate_exp now payload =
     (case payload ''exp'' of
        None \<Rightarrow> validate_sub payload
      | Some (JInt expiry) \<Rightarrow>
          if expiry < utc_seconds now then Inl ExpiredSignatureError else validate_sub payload
      | Some other \<Rightarrow> Inl JWTClaimsError)"

fun jwt_decode :: "(string \<Rightarrow> claims \<Rightarrow> string) \<Rightarrow> int \<Rightarrow> bearer \<Rightarrow> string \<Rightarrow> jwt_error + claims" where
  "jwt_decode sign now (Unparseable t) key = Inl JWTError"
| "jwt_decode sign now (Signed payload signature) key =
     (if signature \<noteq> sign key payload then Inl JWTError else validate_exp now payload)"

text \<open>
  \<^verbatim>\<open>create_access_token\<close>: a \<^verbatim>\<open>timedelta\<close> is falsy exactly when it is zero, so the
  default lifetime is used for \<open>None\<close> and for a zero delta. \<open>now\<close> is what
  \<^verbatim>\<open>datetime.utcnow()\<close> returns.
\<close>

definition default_expiry :: "settings \<Rightarrow> int \<Rightarrow> exn + int" where
  "default_expiry cfg now =
     (case timedelta_minutes (JWT_ACCESS_TOKEN_EXPIRE_MINUTES cfg) of
        Inl e \<Rightarrow> Inl e
      | Inr delta \<Rightarrow> datetime_add now delta)"

definition create_access_token ::
  "(string \<Rightarrow> claims \<Rightarrow> string) \<Rightarrow> settings \<Rightarrow> int \<Rightarrow> claims \<Rightarrow> int option \<Rightarrow>
   exn + bearer" where
  "create_access_token sign cfg now data expires_delta =
     (case (case expires_delta of
              None \<Rightarrow> default_expiry cfg now
            | Some d \<Rightarrow> if d \<noteq> 0 then datetime_add now d else default_expiry cfg now) of
        Inl e \<Rightarrow> Inl e
      | Inr expire \<Rightarrow>
          Inr (jwt_encode sign (data(''exp'' \<mapsto> JInt (utc_seconds expire))) (JWT_SECRET_KEY cfg)))"

text \<open>The fields of \<^verbatim>\<open>UserInfo\<close> as pydantic reads them from the payload.\<close>

fun str_field :: "string \<Rightarrow> json option \<Rightarrow> string option" where
  "str_field dflt None = Some dflt"
| "str_field dflt (Some (JStr s)) = Some s"
| "str_field dflt (Some other) = None"

fun optional_str_field :: "json option \<Rightarrow> string option option" where
  "optional_str_field None = Some None"
| "optional_str_field (Some JNull) = Some None"
| "optional_str_field (Some (JStr s)) = Some (Some s)"
| "optional_str_field (Some other) = None"

fun json_strs :: "json list \<Rightarrow> string list option" where
  "json_strs [] = Some []"
| "json_strs (JStr s # xs) = (case json_strs xs of None \<Rightarrow> None | Some ss \<Rightarrow> Some (s # ss))"
| "json_strs (other # xs) = None"

fun str_list_field :: "json option \<Rightarrow> string list option" where
  "str_list_field None = Some []"
| "str_list_field (Some (JList xs)) = json_strs xs"
| "str_list_field (Some other) = None"

definition credentials_exception :: exn where
  "credentials_exception = HTTPException 401 ''Could not validate credentials''"

definition user_info_of_payload :: "claims \<Rightarrow> exn + UserInfo" where
  "user_info_of_payload payload =
     (case (str_field [] (payload ''username''), optional_str_field (payload ''email''),
            optional_str_field (payload ''first_name''), optional_str_field (payload ''last_name''),
            str_list_field (payload ''roles''), str_field [] (payload ''user_id'')) of
        (Some u, Some e, Some f, Some l, Some rs, Some i) \<Rightarrow>
          Inr \<lparr>username = u, email = e, first_name = f, last_name = l, roles = rs, user_id = i\<rparr>
      | other \<Rightarrow> Inl ValidationError)"

definition get_current_user ::
  "(string \<Rightarrow> claims \<Rightarrow> string) \<Rightarrow> settings \<Rightarrow> int \<Rightarrow> bearer \<Rightarrow> exn + UserInfo" where
  "get_current_user sign cfg now credentials =
     (case jwt_decode sign now credentials (JWT_SECRET_KEY cfg) of
        Inl e \<Rightarrow> Inl credentials_exception
      | Inr payload \<Rightarrow>
          (case payload ''sub'' of
             None \<Rightarrow> Inl credentials_exception
           | Some JNull \<Rightarrow> Inl credentials_exception
           | Some sub_claim \<Rightarrow> user_info_of_payload payload))"

subsection \<open>Login (main.py, POST /auth/login)\<close>

definition json_opt :: "string option \<Rightarrow> json" where
  "json_opt v = (case v of None \<Rightarrow> JNull | Some s \<Rightarrow> JStr s)"

definition token_data :: "UserInfo \<Rightarrow> claims" where
  "token_data user_info =
     [''sub'' \<mapsto> JStr (username user_info),
      ''username'' \<mapsto> JStr (username user_info),
      ''email'' \<mapsto> json_opt (email user_info),
      ''first_name'' \<mapsto> json_opt (first_name user_info),
      ''last_name'' \<mapsto> json_opt (last_name user_info),
      ''roles'' \<mapsto> JList (map JStr (roles user_info)),
      ''user_id'' \<mapsto> JStr (user_id user_info)]"

record Token =
  access_token :: bearer
  token_type :: string
  expires_in :: int

fun login_except :: "exn \<Rightarrow> exn" where
  "login_except (HTTPException code detail) = HTTPException code detail"
| "login_except e = HTTPException 500 ''Internal server error during login''"

definition login ::
  "(string \<Rightarrow> claims \<Rightarrow> string) \<Rightarrow> settings \<Rightarrow> keycloak_openid option \<Rightarrow> int \<Rightarrow>
   string \<Rightarrow> string \<Rightarrow> exn + Token" where
  "login sign cfg keycloak now uname password =
     (case authenticate_user keycloak uname password of
        Inl e \<Rightarrow> Inl (login_except e)
      | Inr user_info \<Rightarrow>
          (case create_access_token sign cfg now (token_data user_info) None of
             Inl e \<Rightarrow> Inl (login_except e)
           | Inr token \<Rightarrow>
               Inr \<lparr>access_token = token, token_type = ''bearer'', expires_in = 1800\<rparr>))"

section \<open>Password reset (auth.py and main.py, POST /auth/password-reset)\<close>

text \<open>
  The admin client of the identity provider: the two calls the reset makes, each
  answering or raising. A user of the answer is a dict; \<^verbatim>\<open>user["id"]\<close> raises when the
  key is missing.
\<close>

record keycloak_admin =
  ka_get_users :: "string \<Rightarrow> exn + (string \<rightharpoonup> string) list"
  ka_send_update_account :: "string \<Rightarrow> exn + unit"

definition send_password_reset_email_body :: "keycloak_admin \<Rightarrow> string \<Rightarrow> exn + bool" where
  "send_password_reset_email_body ka email_address =
     (case ka_get_users ka email_address of
        Inl e \<Rightarrow> Inl e
      | Inr [] \<Rightarrow> Inr True
      | Inr (user # rest) \<Rightarrow>
          (case user ''id'' of
             None \<Rightarrow> Inl (OtherException ''KeyError'')
           | Some uid \<Rightarrow>
               (case ka_send_update_account ka uid of
                  Inl e \<Rightarrow> Inl e
                | Inr u \<Rightarrow> Inr True)))"

definition send_password_reset_email :: "keycloak_admin option \<Rightarrow> string \<Rightarrow> exn + bool" where
  "send_password_reset_email admin email_address =
     (case admin of
        None \<Rightarrow> Inl (HTTPException 500 ''Keycloak admin client not initialized'')
      | Some ka \<Rightarrow>
          (case send_password_reset_email_body ka email_address of
             Inl e \<Rightarrow> Inr True
           | Inr sent \<Rightarrow> Inr sent))"

record PasswordResetResponse =
  success :: bool
  message :: string

definition reset_message :: string where
  "reset_message = ''If the email address exists in our system, a password reset link has been sent.''"

definition request_password_reset :: "keycloak_admin option \<Rightarrow> string \<Rightarrow> exn + PasswordResetResponse" where
  "request_password_reset admin email_address =
     (case send_password_reset_email admin email_address of
        Inr sent \<Rightarrow> Inr \<lparr>success = True, message = reset_message\<rparr>
      | Inl e \<Rightarrow> Inr \<lparr>success = True, message = reset_message\<rparr>)"

section \<open>User profiles (db\_models.py, user\_service.py, main.py)\<close>

text \<open>
  A row of the table \<^verbatim>\<open>users\<close>. The primary key \<^verbatim>\<open>id\<close> is \<open>id_col\<close>; a UUID is its
  128-bit number; the text columns are nullable; timestamps are microseconds since the
  epoch. The length of a string is its number of characters, which is what the database
  counts.
\<close>

record User =
  id_col :: nat
  keycloak_id :: nat
  full_name :: "string option"
  phone :: "string option"
  address :: "string option"
  city :: "string option"
  country :: "string option"
  timezone :: "string option"
  created_at :: int
  updated_at :: int

record UserProfileCreate =
  new_full_name :: string
  new_phone :: "string option"
  new_address :: "string option"
  new_city :: "string option"
  new_country :: "string option"
  new_timezone :: "string option"

record UserProfileUpdate =
  upd_full_name :: "string option"
  upd_phone :: "string option"
  upd_address :: "string option"
  upd_city :: "string option"
  upd_country :: "string option"
  upd_timezone :: "string option"

record UserProfileResponse =
  resp_id :: nat
  resp_keycloak_id :: nat
  resp_full_name :: string
  resp_phone :: "string option"
  resp_address :: "string option"
  resp_city :: "string option"
  resp_country :: "string option"
  resp_timezone :: "string option"
  resp_created_at :: int

subsection \<open>The table\<close>

text \<open>
  The database is the list of the rows of \<^verbatim>\<open>users\<close>, in insertion order. The
  declarations of \<^verbatim>\<open>db_models.py\<close> are its constraints. A value for a \<^verbatim>\<open>String(n)\<close> column
  that is longer than \<open>n\<close> is refused with \<^verbatim>\<open>DataError\<close>, unless all characters beyond \<open>n\<close>
  are spaces, which the database cuts off; a \<^verbatim>\<open>Text\<close> column has no bound. The driver
  refuses a string parameter with a NUL character with \<^verbatim>\<open>ValueError\<close>, before the
  statement reaches the database. \<^verbatim>\<open>primary_key\<close> on \<^verbatim>\<open>id\<close> and \<^verbatim>\<open>unique=True\<close> on
  \<^verbatim>\<open>keycloak_id\<close> make an insert of a row with a value that is taken fail with
  \<^verbatim>\<open>IntegrityError\<close>; \<^verbatim>\<open>server_default=func.now()\<close> stamps a new row, and
  \<^verbatim>\<open>onupdate=func.now()\<close> stamps \<^verbatim>\<open>updated_at\<close> in every UPDATE statement the session
  emits. A failed statement leaves the rows as they were. The value the sequence of \<^verbatim>\<open>id\<close>
  gives to an insert is the parameter \<open>new_id\<close>.
\<close>

type_synonym db = "User list"

definition NUL :: char where
  "NUL = CHR 0x00"

definition contains_nul :: "string option \<Rightarrow> bool" where
  "contains_nul v = (case v of None \<Rightarrow> False | Some s \<Rightarrow> NUL \<in> set s)"

definition nul_error :: exn where
  "nul_error = ValueError ''A string literal cannot contain NUL (0x00) characters.''"

definition data_error :: exn where
  "data_error = OtherException ''DataError''"

definition varchar :: "nat \<Rightarrow> string option \<Rightarrow> string option option" where
  "varchar n v =
     (case v of
        None \<Rightarrow> Some None
      | Some s \<Rightarrow>
          if length s \<le> n then Some (Some s)
          else if list_all (\<lambda>c. c = CHR '' '') (drop n s) then Some (Some (take n s))
          else None)"

text \<open>An INSERT binds every column the constructor was given.\<close>

definition insert_columns :: "User \<Rightarrow> exn + User" where
  "insert_columns u =
     (if list_ex contains_nul [full_name u, phone u, address u, city u, country u, timezone u]
      then Inl nul_error
      else
        (case (varchar 255 (full_name u), varchar 50 (phone u), varchar 255 (city u),
               varchar 255 (country u), varchar 100 (timezone u)) of
           (Some f, Some p, Some c, Some k, Some t) \<Rightarrow>
             Inr (u\<lparr>full_name := f, phone := p, city := c, country := k, timezone := t\<rparr>)
         | other \<Rightarrow> Inl data_error))"

definition insert_user :: "int \<Rightarrow> nat \<Rightarrow> db \<Rightarrow> User \<Rightarrow> exn + (User \<times> db)" where
  "insert_user now new_id d db_user =
     (case insert_columns db_user of
        Inl e \<Rightarrow> Inl e
      | Inr row \<Rightarrow>
          if list_ex (\<lambda>r. keycloak_id r = keycloak_id row \<or> id_col r = new_id) d
          then Inl IntegrityError
          else
            (let stored = row\<lparr>id_col := new_id, created_at := now, updated_at := now\<rparr>
             in Inr (stored, d @ [stored])))"

text \<open>
  The unit of work at \<^verbatim>\<open>commit\<close>: the session compares the object with the row it
  loaded and emits an UPDATE only when a column differs; it emits none for an object
  whose attributes were set to the values they had. The UPDATE binds the columns that
  differ and no other.
\<close>

definition columns_equal :: "User \<Rightarrow> User \<Rightarrow> bool" where
  "columns_equal a b =
     (full_name a = full_name b \<and> phone a = phone b \<and> address a = address b \<and>
      city a = city b \<and> country a = country b \<and> timezone a = timezone b)"

definition nul_bound :: "string option \<Rightarrow> string option \<Rightarrow> bool" where
  "nul_bound old new = (new \<noteq> old \<and> contains_nul new)"

definition varchar_bound :: "nat \<Rightarrow> string option \<Rightarrow> string option \<Rightarrow> string option option" where
  "varchar_bound n old new = (if new = old then Some new else varchar n new)"

definition update_columns :: "User \<Rightarrow> User \<Rightarrow> exn + User" where
  "update_columns loaded changed =
     (if nul_bound (full_name loaded) (full_name changed) \<or> nul_bound (phone loaded) (phone changed) \<or>
         nul_bound (address loaded) (address changed) \<or> nul_bound (city loaded) (city changed) \<or>
         nul_bound (country loaded) (country changed) \<or> nul_bound (timezone loaded) (timezone changed)
      then Inl nul_error
      else
        (case (varchar_bound 255 (full_name loaded) (full_name changed),
               varchar_bound 50 (phone loaded) (phone changed),
               varchar_bound 255 (city loaded) (city changed),
               varchar_bound 255 (country loaded) (country changed),
               varchar_bound 100 (timezone loaded) (timezone changed)) of
           (Some f, Some p, Some c, Some k, Some t) \<Rightarrow>
             Inr (changed\<lparr>full_name := f, phone := p, city := c, country := k, timezone := t\<rparr>)
         | other \<Rightarrow> Inl data_error))"

definition flush_user :: "int \<Rightarrow> db \<Rightarrow> User \<Rightarrow> User \<Rightarrow> exn + db" where
  "flush_user now d loaded changed =
     (if columns_equal loaded changed then Inr d
      else
        (case update_columns loaded changed of
           Inl e \<Rightarrow> Inl e
         | Inr row \<Rightarrow>
             Inr (map (\<lambda>r. if id_col r = id_col loaded then row\<lparr>updated_at := now\<rparr> else r) d)))"

definition refresh :: "db \<Rightarrow> User \<Rightarrow> exn + User" where
  "refresh d u =
     (case find (\<lambda>r. id_col r = id_col u) d of
        None \<Rightarrow> Inl (OtherException ''InvalidRequestError'')
      | Some r \<Rightarrow> Inr r)"

subsection \<open>user\_service.py\<close>

text \<open>
  \<^verbatim>\<open>uuid.UUID\<close> is the parameter \<open>UUID\<close>: the number of a well-formed string, \<open>None\<close>
  where Python raises \<^verbatim>\<open>ValueError\<close>. The query compares the UUID column with the string
  it is given, which the database rejects when the string is no UUID.
\<close>

definition badly_formed :: string where
  "badly_formed = ''badly formed hexadecimal UUID string''"

definition get_user_by_keycloak_id ::
  "(string \<Rightarrow> nat option) \<Rightarrow> db \<Rightarrow> string \<Rightarrow> exn + User option" where
  "get_user_by_keycloak_id UUID d kid =
     (case UUID kid of
        None \<Rightarrow> Inl data_error
      | Some k \<Rightarrow> Inr (find (\<lambda>r. keycloak_id r = k) d))"

definition new_user :: "nat \<Rightarrow> UserProfileCreate \<Rightarrow> User" where
  "new_user k profile_data =
     \<lparr>id_col = 0, keycloak_id = k,
      full_name = Some (new_full_name profile_data),
      phone = new_phone profile_data,
      address = new_address profile_data,
      city = new_city profile_data,
      country = new_country profile_data,
      timezone = new_timezone profile_data,
      created_at = 0, updated_at = 0\<rparr>"

definition create_user_profile ::
  "(string \<Rightarrow> nat option) \<Rightarrow> int \<Rightarrow> nat \<Rightarrow> db \<Rightarrow> string \<Rightarrow> UserProfileCreate \<Rightarrow>
   (exn + User) \<times> db" where
  "create_user_profile UUID now new_id d kid profile_data =
     (case UUID kid of
        None \<Rightarrow> (Inl (ValueError (''Invalid data format: '' @ badly_formed)), d)
      | Some k \<Rightarrow>
          (case insert_user now new_id d (new_user k profile_data) of
             Inl IntegrityError \<Rightarrow> (Inl (ValueError ''User profile already exists''), d)
           | Inl (ValueError m) \<Rightarrow> (Inl (ValueError (''Invalid data format: '' @ m)), d)
           | Inl e \<Rightarrow> (Inl e, d)
           | Inr (stored, d') \<Rightarrow> (Inr stored, d')))"

definition overwrite :: "string option \<Rightarrow> string option \<Rightarrow> string option" where
  "overwrite provided old = (case provided of None \<Rightarrow> old | Some v \<Rightarrow> Some v)"

definition apply_update :: "User \<Rightarrow> UserProfileUpdate \<Rightarrow> User" where
  "apply_update user profile_data =
     user\<lparr>full_name := overwrite (upd_full_name profile_data) (full_name user),
          phone := overwrite (upd_phone profile_data) (phone user),
          address := overwrite (upd_address profile_data) (address user),
          city := overwrite (upd_city profile_data) (city user),
          country := overwrite (upd_country profile_data) (country user),
          timezone := overwrite (upd_timezone profile_data) (timezone user)\<rparr>"

definition update_user_profile ::
  "int \<Rightarrow> db \<Rightarrow> User \<Rightarrow> UserProfileUpdate \<Rightarrow> (exn + User) \<times> db" where
  "update_user_profile now d user profile_data =
     (case flush_user now d user (apply_update user profile_data) of
        Inl (ValueError m) \<Rightarrow> (Inl (ValueError (''Invalid data format: '' @ m)), d)
      | Inl e \<Rightarrow> (Inl e, d)
      | Inr d' \<Rightarrow>
          (case refresh d' user of
             Inl (ValueError m) \<Rightarrow> (Inl (ValueError (''Invalid data format: '' @ m)), d')
           | Inl e \<Rightarrow> (Inl e, d')
           | Inr r \<Rightarrow> (Inr r, d')))"

subsection \<open>The handlers of /users/me (main.py)\<close>

text \<open>
  \<^verbatim>\<open>UserProfileResponse\<close> requires \<^verbatim>\<open>full_name\<close> to be a string; pydantic's
  \<^verbatim>\<open>ValidationError\<close> is a \<^verbatim>\<open>ValueError\<close>, so the handlers' first \<^verbatim>\<open>except\<close> clause
  catches both.
\<close>

definition profile_response :: "User \<Rightarrow> exn + UserProfileResponse" where
  "profile_response user =
     (case full_name user of
        None \<Rightarrow> Inl ValidationError
      | Some n \<Rightarrow>
          Inr \<lparr>resp_id = id_col user, resp_keycloak_id = keycloak_id user, resp_full_name = n,
               resp_phone = phone user, resp_address = address user, resp_city = city user,
               resp_country = country user, resp_timezone = timezone user,
               resp_created_at = created_at user\<rparr>)"

definition profile_conflict :: exn where
  "profile_conflict = HTTPException 409 ''User profile already exists. Use PUT to update.''"

definition create_my_profile_body ::
  "(string \<Rightarrow> nat option) \<Rightarrow> int \<Rightarrow> nat \<Rightarrow> db \<Rightarrow> UserInfo \<Rightarrow> UserProfileCreate \<Rightarrow>
   (exn + UserProfileResponse) \<times> db" where
  "create_my_profile_body UUID now new_id d current_user profile_data =
     (case get_user_by_keycloak_id UUID d (user_id current_user) of
        Inl e \<Rightarrow> (Inl e, d)
      | Inr (Some existing_user) \<Rightarrow> (Inl profile_conflict, d)
      | Inr None \<Rightarrow>
          (case create_user_profile UUID now new_id d (user_id current_user) profile_data of
             (Inl e, d') \<Rightarrow> (Inl e, d')
           | (Inr user, d') \<Rightarrow> (profile_response user, d')))"

fun handler_except :: "string \<Rightarrow> exn \<Rightarrow> exn" where
  "handler_except generic (ValueError m) = HTTPException 400 m"
| "handler_except generic ValidationError = HTTPException 400 (exn_str ValidationError)"
| "handler_except generic (HTTPException code detail) = HTTPException code detail"
| "handler_except generic e = HTTPException 500 generic"

definition create_my_profile ::
  "(string \<Rightarrow> nat option) \<Rightarrow> int \<Rightarrow> nat \<Rightarrow> db \<Rightarrow> UserInfo \<Rightarrow> UserProfileCreate \<Rightarrow>
   (exn + UserProfileResponse) \<times> db" where
  "create_my_profile UUID now new_id d current_user profile_data =
     (case create_my_profile_body UUID now new_id d current_user profile_data of
        (Inl e, d') \<Rightarrow> (Inl (handler_except ''Error creating user profile'' e), d')
      | (Inr response, d') \<Rightarrow> (Inr response, d'))"

definition profile_missing :: exn where
  "profile_missing = HTTPException 404 ''User profile not found. Create profile first.''"

definition update_my_profile_body ::
  "(string \<Rightarrow> nat option) \<Rightarrow> int \<Rightarrow> db \<Rightarrow> UserInfo \<Rightarrow> UserProfileUpdate \<Rightarrow>
   (exn + UserProfileResponse) \<times> db" where
  "update_my_profile_body UUID now d current_user profile_data =
     (case get_user_by_keycloak_id UUID d (user_id current_user) of
        Inl e \<Rightarrow> (Inl e, d)
      | Inr None \<Rightarrow> (Inl profile_missing, d)
      | Inr (Some user) \<Rightarrow>
          (case update_user_profile now d user profile_data of
             (Inl e, d') \<Rightarrow> (Inl e, d')
           | (Inr updated_user, d') \<Rightarrow> (profile_response updated_user, d')))"

definition update_my_profile ::
  "(string \<Rightarrow> nat option) \<Rightarrow> int \<Rightarrow> db \<Rightarrow> UserInfo \<Rightarrow> UserProfileUpdate \<Rightarrow>
   (exn + UserProfileResponse) \<times> db" where
  "update_my_profile UUID now d current_user profile_data =
     (case update_my_profile_body UUID now d current_user profile_data of
        (Inl e, d') \<Rightarrow> (Inl (handler_except ''Error updating user profile'' e), d')
      | (Inr response, d') \<Rightarrow> (Inr response, d'))"

text \<open>The keys of the table as a predicate on the database.\<close>

definition db_invariant :: "db \<Rightarrow> bool" where
  "db_invariant d = (distinct (map keycloak_id d) \<and> distinct (map id_col d))"

section \<open>Notions used in the statements\<close>

text \<open>The role names a payload carries, before any filtering, by scope.\<close>

definition realm_role_names :: "token_info \<Rightarrow> string list" where
  "realm_role_names ti = (case realm_access ti of None \<Rightarrow> [] | Some ra \<Rightarrow> get_roles ra)"

definition client_role_names :: "token_info \<Rightarrow> string list" where
  "client_role_names ti =
     (case resource_access ti of None \<Rightarrow> [] | Some cs \<Rightarrow> concat (map (\<lambda>(cid, ca). get_roles ca) cs))"

text \<open>Sample payloads.\<close>

definition admin_payload :: token_info where
  "admin_payload =
     \<lparr>realm_access = Some \<lparr>access_roles = Some [''admin'', ''default-roles-master'']\<rparr>,
      resource_access = None\<rparr>"

definition moderator_payload :: token_info where
  "moderator_payload =
     \<lparr>realm_access = Some \<lparr>access_roles = Some [''moderator'', ''user'', ''offline_access'']\<rparr>,
      resource_access = Some [(''dashboard-app'', \<lparr>access_roles = Some [''dashboard-admin'']\<rparr>)]\<rparr>"

definition reserved_payload :: token_info where
  "reserved_payload =
     \<lparr>realm_access = Some \<lparr>access_roles = Some [''uma_protection'']\<rparr>,
      resource_access = Some [(''account'', \<lparr>access_roles = Some [''offline_access'']\<rparr>)]\<rparr>"

definition scoped_reserved_payload :: token_info where
  "scoped_reserved_payload =
     \<lparr>realm_access = Some \<lparr>access_roles = Some [''offline_access'', ''uma_authorization'']\<rparr>,
      resource_access = Some [(''account'', \<lparr>access_roles = Some [''uma_protection'']\<rparr>)]\<rparr>"

text \<open>An identity provider that accepts every login and grants no role.\<close>

definition provider_without_roles :: keycloak_openid where
  "provider_without_roles =
     \<lparr>kc_token = (\<lambda>uname password. Inr ''access-token''),
      kc_userinfo = (\<lambda>token. Inr \<lparr>preferred_username = None, ui_email = None,
                                   given_name = None, family_name = None, sub = Some ''id-1''\<rparr>),
      kc_introspect = (\<lambda>token. Inr \<lparr>realm_access = None, resource_access = None\<rparr>)\<rparr>"

text \<open>A signing function, settings and example users for the statements about tokens.\<close>

definition sample_sign :: "string \<Rightarrow> claims \<Rightarrow> string" where
  "sample_sign key payload =
     key @ (case payload ''sub'' of Some (JStr s) \<Rightarrow> s | other \<Rightarrow> [])"

definition sample_settings :: settings where
  "sample_settings = \<lparr>JWT_SECRET_KEY = ''secret'', JWT_ACCESS_TOKEN_EXPIRE_MINUTES = 30\<rparr>"

definition alice :: UserInfo where
  "alice = \<lparr>username = ''alice'', email = Some ''alice@example.org'', first_name = None,
            last_name = None, roles = [''user'', ''moderator''], user_id = ''id-7''\<rparr>"

definition token_without_exp :: bearer where
  "token_without_exp =
     Signed [''sub'' \<mapsto> JStr ''alice''] (sample_sign ''secret'' [''sub'' \<mapsto> JStr ''alice''])"

text \<open>
  A table with one profile, the user it belongs to, a patch that provides nothing, and a
  reading of UUID strings for the examples.
\<close>

definition sample_uuid :: "string \<Rightarrow> nat option" where
  "sample_uuid s = (if s = ''id-7'' then Some 7 else if s = ''id-8'' then Some 8 else None)"

definition alice_row :: User where
  "alice_row =
     \<lparr>id_col = 1, keycloak_id = 7, full_name = Some ''Alice'', phone = None, address = None,
      city = Some ''A'', country = None, timezone = None, created_at = 100, updated_at = 100\<rparr>"

definition sample_db :: db where
  "sample_db = [alice_row]"

definition sample_profile :: UserProfileCreate where
  "sample_profile =
     \<lparr>new_full_name = ''Alice Again'', new_phone = None, new_address = None, new_city = None,
      new_country = None, new_timezone = None\<rparr>"

definition empty_patch :: UserProfileUpdate where
  "empty_patch =
     \<lparr>upd_full_name = None, upd_phone = None, upd_address = None, upd_city = None,
      upd_country = None, upd_timezone = None\<rparr>"

definition country_patch :: UserProfileUpdate where
  "country_patch = empty_patch\<lparr>upd_country := Some ''B''\<rparr>"

text \<open>
  What a profile or a patch must satisfy for the database to store its values as they
  are: no value has a NUL character and none is longer than its column; and a field of
  the row after an update, given what the patch provides for it and what the row held
  before.
\<close>

definition fits :: "nat \<Rightarrow> string option \<Rightarrow> bool" where
  "fits n v = (case v of None \<Rightarrow> True | Some s \<Rightarrow> length s \<le> n)"

definition new_profile_storable :: "UserProfileCreate \<Rightarrow> bool" where
  "new_profile_storable p =
     (NUL \<notin> set (new_full_name p) \<and> \<not> contains_nul (new_phone p) \<and>
      \<not> contains_nul (new_address p) \<and> \<not> contains_nul (new_city p) \<and>
      \<not> contains_nul (new_country p) \<and> \<not> contains_nul (new_timezone p) \<and>
      length (new_full_name p) \<le> 255 \<and> fits 50 (new_phone p) \<and> fits 255 (new_city p) \<and>
      fits 255 (new_country p) \<and> fits 100 (new_timezone p))"

definition patch_storable :: "UserProfileUpdate \<Rightarrow> bool" where
  "patch_storable p =
     (\<not> contains_nul (upd_full_name p) \<and> \<not> contains_nul (upd_phone p) \<and>
      \<not> contains_nul (upd_address p) \<and> \<not> contains_nul (upd_city p) \<and>
      \<not> contains_nul (upd_country p) \<and> \<not> contains_nul (upd_timezone p) \<and>
      fits 255 (upd_full_name p) \<and> fits 50 (upd_phone p) \<and> fits 255 (upd_city p) \<and>
      fits 255 (upd_country p) \<and> fits 100 (upd_timezone p))"

definition field_after :: "string option \<Rightarrow> string option \<Rightarrow> string option \<Rightarrow> bool" where
  "field_after provided old new = (case provided of None \<Rightarrow> new = old | Some v \<Rightarrow> new = Some v)"

section \<open>Extraction and lookup\<close>

lemmas role_defs = extract_detailed_roles_def extract_realm_roles_def extract_client_roles_def
  get_roles_def realm_default_roles_def client_default_roles_def realm_role_def client_role_def
  get_role_permissions_def get_role_description_def ROLE_PERMISSIONS_def ROLE_DESCRIPTIONS_def

lemmas title_defs = str_title_def is_ascii_def char_upper_def char_lower_def is_cased_def
  ascii_lowercase_def ascii_uppercase_def

lemma extract_admin_payload:
  "extract_detailed_roles title admin_payload =
    [\<lparr>name = ''admin'', type = REALM, client_id = None,
      permissions = [''profile:read'', ''profile:update'', ''preferences:read'',
        ''preferences:update'', ''users:read'', ''users:manage'', ''system:admin''],
      description = Some ''System administrator with full access''\<rparr>]"
  by (simp add: admin_payload_def role_defs)

text \<open>
  Claim C2, evaluated on the code. For the payload
  \<^verbatim>\<open>{realm_access:{roles:["admin","default-roles-master"]}}\<close> extraction yields exactly one
  role, \<^verbatim>\<open>admin\<close> in the realm scope; the union of the permissions contains
  \<^verbatim>\<open>system:admin\<close>; \<^verbatim>\<open>is_admin\<close> is true; and \<^verbatim>\<open>can_moderate\<close> is false, because
  \<^verbatim>\<open>calculate_user_permissions\<close> derives it from \<^verbatim>\<open>content:moderate\<close> alone, which the
  permissions of \<^verbatim>\<open>admin\<close> do not contain, while the roles endpoint gives true for the
  role names of the same payload.
\<close>

theorem admin_payload_access_levels:
  "map (\<lambda>r. (name r, type r)) (extract_detailed_roles title admin_payload) = [(''admin'', REALM)] \<and>
   ''system:admin'' \<in> fr_permissions (get_roles_for_frontend title admin_payload) \<and>
   map_of (full_claims_access_levels title admin_payload) ''is_admin'' = Some True \<and>
   map_of (full_claims_access_levels title admin_payload) ''can_moderate'' = Some False \<and>
   map_of (flattened_access_levels uname admin_payload) ''can_moderate'' = Some True"
proof (intro conjI)
  show "map (\<lambda>r. (name r, type r)) (extract_detailed_roles title admin_payload) = [(''admin'', REALM)]"
    unfolding extract_admin_payload by simp
  show "''system:admin'' \<in> fr_permissions (get_roles_for_frontend title admin_payload)"
    unfolding get_roles_for_frontend_def Let_def extract_admin_payload
    by (simp add: calculate_user_permissions_def)
  show "map_of (full_claims_access_levels title admin_payload) ''is_admin'' = Some True"
    unfolding full_claims_access_levels_def get_roles_for_frontend_def Let_def extract_admin_payload
    by (simp add: calculate_user_permissions_def any_permission_def)
  show "map_of (full_claims_access_levels title admin_payload) ''can_moderate'' = Some False"
    unfolding full_claims_access_levels_def get_roles_for_frontend_def Let_def extract_admin_payload
    by (simp add: calculate_user_permissions_def any_permission_def)
  show "map_of (flattened_access_levels uname admin_payload) ''can_moderate'' = Some True"
    by (simp add: flattened_access_levels_def names_access_levels_def authenticated_roles_def
        filtered_realm_roles_def filtered_client_roles_def get_roles_def admin_payload_def Let_def)
qed

text \<open>
  Claim C1, evaluated on the code. For the same payload the two paths give different
  access-level maps: the full-claims path, which reads the permission table, gives
  \<^verbatim>\<open>can_moderate\<close>, \<^verbatim>\<open>can_view_analytics\<close>, \<^verbatim>\<open>can_export_data\<close> and \<^verbatim>\<open>can_access_api\<close> false;
  the flattened path, which grants them to the name \<^verbatim>\<open>admin\<close>, gives all four true. The
  other four flags that both paths define agree.
\<close>

theorem paths_disagree_on_admin_payload:
  "full_claims_access_levels title admin_payload =
     [(''can_view_admin'', True), (''can_manage_users'', True), (''can_moderate'', False),
      (''can_view_analytics'', False), (''can_export_data'', False), (''can_access_api'', False),
      (''is_admin'', True), (''is_moderator'', False)] \<and>
   flattened_access_levels uname admin_payload =
     [(''can_view_admin'', True), (''can_manage_users'', True), (''can_moderate'', True),
      (''can_view_analytics'', True), (''can_export_data'', True), (''can_access_api'', True),
      (''is_admin'', True), (''is_moderator'', False),
      (''is_standard_user'', uname = ''37099475'')]"
proof (intro conjI)
  show "full_claims_access_levels title admin_payload =
     [(''can_view_admin'', True), (''can_manage_users'', True), (''can_moderate'', False),
      (''can_view_analytics'', False), (''can_export_data'', False), (''can_access_api'', False),
      (''is_admin'', True), (''is_moderator'', False)]"
    unfolding full_claims_access_levels_def get_roles_for_frontend_def Let_def extract_admin_payload
    by (simp add: calculate_user_permissions_def any_permission_def)
  show "flattened_access_levels uname admin_payload =
     [(''can_view_admin'', True), (''can_manage_users'', True), (''can_moderate'', True),
      (''can_view_analytics'', True), (''can_export_data'', True), (''can_access_api'', True),
      (''is_admin'', True), (''is_moderator'', False),
      (''is_standard_user'', uname = ''37099475'')]"
    by (simp add: flattened_access_levels_def names_access_levels_def authenticated_roles_def
        filtered_realm_roles_def filtered_client_roles_def get_roles_def admin_payload_def Let_def)
qed

subsection \<open>Reserved names\<close>

lemma extract_realm_roles_eq:
  "extract_realm_roles title ti =
     map (realm_role title) (filter (\<lambda>r. r \<notin> set realm_default_roles) (realm_role_names ti))"
  by (simp add: extract_realm_roles_def realm_role_names_def split: option.splits)

lemma name_realm_role [simp]: "name (realm_role title n) = n" "type (realm_role title n) = REALM"
  by (simp_all add: realm_role_def)

lemma name_client_role [simp]:
  "name (client_role title c n) = n" "type (client_role title c n) = CLIENT"
  by (simp_all add: client_role_def)

lemma extract_client_roles_names:
  "map name (extract_client_roles title ti) =
     filter (\<lambda>r. r \<notin> set client_default_roles) (client_role_names ti)"
proof (cases "resource_access ti")
  case None
  then show ?thesis by (simp add: extract_client_roles_def client_role_names_def)
next
  case (Some cs)
  have "map name (concat (map (\<lambda>(cid, ca).
            map (client_role title cid)
              (filter (\<lambda>r. r \<notin> set client_default_roles) (get_roles ca))) cs))
      = filter (\<lambda>r. r \<notin> set client_default_roles) (concat (map (\<lambda>(cid, ca). get_roles ca) cs))"
    by (induction cs) (auto simp add: comp_def)
  with Some show ?thesis by (simp add: extract_client_roles_def client_role_names_def)
qed

lemma extract_client_roles_type:
  "r \<in> set (extract_client_roles title ti) \<Longrightarrow> type r = CLIENT"
  by (auto simp add: extract_client_roles_def split: option.splits)

lemma extract_realm_roles_type:
  "r \<in> set (extract_realm_roles title ti) \<Longrightarrow> type r = REALM"
  by (auto simp add: extract_realm_roles_def split: option.splits)

lemma extract_filters_lists:
  "(set (realm_role_names ti) \<subseteq> set realm_default_roles \<and>
    set (client_role_names ti) \<subseteq> set client_default_roles \<longrightarrow>
      extract_detailed_roles title ti = []) \<and>
   (\<forall>r \<in> set (extract_detailed_roles title ti).
      (type r = REALM \<longrightarrow> name r \<notin> set realm_default_roles) \<and>
      (type r = CLIENT \<longrightarrow> name r \<notin> set client_default_roles))"
proof (intro conjI impI ballI)
  assume a: "set (realm_role_names ti) \<subseteq> set realm_default_roles \<and>
    set (client_role_names ti) \<subseteq> set client_default_roles"
  have r: "extract_realm_roles title ti = []"
    using a by (auto simp add: extract_realm_roles_eq filter_empty_conv)
  have "map name (extract_client_roles title ti) = []"
    using a by (auto simp add: extract_client_roles_names filter_empty_conv)
  then have "extract_client_roles title ti = []" by simp
  with r show "extract_detailed_roles title ti = []" by (simp add: extract_detailed_roles_def)
next
  fix r assume r: "r \<in> set (extract_detailed_roles title ti)" and t: "type r = REALM"
  from r t have "r \<in> set (extract_realm_roles title ti)"
    using extract_client_roles_type[of r title ti] by (auto simp add: extract_detailed_roles_def)
  then show "name r \<notin> set realm_default_roles"
    by (auto simp add: extract_realm_roles_eq)
next
  fix r assume r: "r \<in> set (extract_detailed_roles title ti)" and t: "type r = CLIENT"
  from r t have "r \<in> set (extract_client_roles title ti)"
    using extract_realm_roles_type[of r title ti] by (auto simp add: extract_detailed_roles_def)
  then have "name r \<in> set (map name (extract_client_roles title ti))" by simp
  then show "name r \<notin> set client_default_roles"
    unfolding extract_client_roles_names by simp
qed

text \<open>
  Claim C3, amended. Extraction filters each scope by its own names: \<^verbatim>\<open>offline_access\<close>
  and \<^verbatim>\<open>uma_authorization\<close> among the realm roles, \<^verbatim>\<open>uma_protection\<close> among the client
  roles. A payload whose realm roles all are \<^verbatim>\<open>offline_access\<close> or \<^verbatim>\<open>uma_authorization\<close> and
  whose client roles all are \<^verbatim>\<open>uma_protection\<close> yields no role; and no extracted realm role
  is named \<^verbatim>\<open>offline_access\<close> or \<^verbatim>\<open>uma_authorization\<close>, no extracted client role
  \<^verbatim>\<open>uma_protection\<close>.
\<close>

theorem extract_filters_by_scope:
  "(set (realm_role_names ti) \<subseteq> {''offline_access'', ''uma_authorization''} \<and>
    set (client_role_names ti) \<subseteq> {''uma_protection''} \<longrightarrow>
      extract_detailed_roles title ti = []) \<and>
   (\<forall>r \<in> set (extract_detailed_roles title ti).
      (type r = REALM \<longrightarrow> name r \<notin> {''offline_access'', ''uma_authorization''}) \<and>
      (type r = CLIENT \<longrightarrow> name r \<noteq> ''uma_protection''))"
proof (intro conjI impI ballI)
  assume a: "set (realm_role_names ti) \<subseteq> {''offline_access'', ''uma_authorization''} \<and>
    set (client_role_names ti) \<subseteq> {''uma_protection''}"
  then have "set (realm_role_names ti) \<subseteq> set realm_default_roles \<and>
    set (client_role_names ti) \<subseteq> set client_default_roles"
    unfolding realm_default_roles_def client_default_roles_def by auto
  with extract_filters_lists[of ti title] show "extract_detailed_roles title ti = []"
    by (rule conjunct1[THEN mp])
next
  fix r assume r: "r \<in> set (extract_detailed_roles title ti)" and t: "type r = REALM"
  from extract_filters_lists[of ti title] r t have "name r \<notin> set realm_default_roles"
    by blast
  then show "name r \<notin> {''offline_access'', ''uma_authorization''}"
    unfolding realm_default_roles_def by simp
next
  fix r assume r: "r \<in> set (extract_detailed_roles title ti)" and t: "type r = CLIENT"
  from extract_filters_lists[of ti title] r t have "name r \<notin> set client_default_roles"
    by blast
  then show "name r \<noteq> ''uma_protection''"
    unfolding client_default_roles_def by simp
qed

theorem extract_filters_by_scope_witness:
  "set (realm_role_names scoped_reserved_payload) \<subseteq> {''offline_access'', ''uma_authorization''} \<and>
   set (client_role_names scoped_reserved_payload) \<subseteq> {''uma_protection''} \<and>
   extract_detailed_roles (\<lambda>s. s) scoped_reserved_payload = [] \<and>
   map (\<lambda>r. (name r, type r)) (extract_detailed_roles (\<lambda>s. s) moderator_payload) =
     [(''moderator'', REALM), (''user'', REALM), (''dashboard-admin'', CLIENT)]"
  using extract_filters_by_scope [of scoped_reserved_payload "\<lambda>s. s"]
    extract_filters_by_scope [of moderator_payload "\<lambda>s. s"]
  by (simp add: realm_role_names_def client_role_names_def scoped_reserved_payload_def
      moderator_payload_def role_defs)

text \<open>
  Claim C3 as stated fails: the payload with the realm role \<^verbatim>\<open>uma_protection\<close> and the
  client role \<^verbatim>\<open>offline_access\<close> carries reserved names only, and extraction yields both.
\<close>

theorem reserved_names_materialised:
  "set (realm_role_names reserved_payload @ client_role_names reserved_payload)
     \<subseteq> {''offline_access'', ''uma_authorization'', ''uma_protection''} \<and>
   map (\<lambda>r. (name r, type r)) (extract_detailed_roles (\<lambda>s. s) reserved_payload) =
     [(''uma_protection'', REALM), (''offline_access'', CLIENT)]"
  by (simp add: realm_role_names_def client_role_names_def reserved_payload_def role_defs)

subsection \<open>Lookup of a role without a table entry\<close>

text \<open>
  Claim C4, amended. A role with no entry in the permission table gets the empty
  permission list and the description made of the role name in title case (as
  \<^verbatim>\<open>str.title()\<close> gives it) followed by \<^verbatim>\<open> role\<close>; both lookups are total. For a name of
  ASCII characters the title case is the name with the first letter of every run of
  letters in upper case and the other letters in lower case.
\<close>

theorem lookup_miss:
  "map_of ROLE_PERMISSIONS (n, t) = None \<Longrightarrow>
   get_role_permissions n t c = [] \<and>
   get_role_description title n t = str_title title n @ '' role'' \<and>
   (list_all is_ascii n \<longrightarrow> get_role_description title n t = title_from False n @ '' role'')"
  by (auto simp add: get_role_permissions_def get_role_description_def ROLE_PERMISSIONS_def
      ROLE_DESCRIPTIONS_def str_title_def split: if_splits)

theorem lookup_miss_witness:
  "map_of ROLE_PERMISSIONS (''data-analyst'', CLIENT) = None \<and>
   list_all is_ascii ''data-analyst'' \<and>
   get_role_permissions ''data-analyst'' CLIENT (Some ''dashboard-app'') = [] \<and>
   get_role_description (\<lambda>s. s) ''data-analyst'' CLIENT = ''Data-Analyst role''"
  using lookup_miss [of "''data-analyst''" CLIENT "Some ''dashboard-app''" "\<lambda>s. s"]
  by (simp add: ROLE_PERMISSIONS_def title_defs)

text \<open>
  Claim C4 as stated fails: the role \<^verbatim>\<open>analyst\<close> has no table entry, and its description
  is \<^verbatim>\<open>Analyst role\<close>, not \<^verbatim>\<open>analyst role\<close>.
\<close>

theorem lookup_miss_description_not_verbatim:
  "map_of ROLE_PERMISSIONS (''analyst'', REALM) = None \<and>
   get_role_description (\<lambda>s. s) ''analyst'' REALM = ''Analyst role'' \<and>
   get_role_description (\<lambda>s. s) ''analyst'' REALM \<noteq> ''analyst'' @ '' role''"
  by (simp add: get_role_description_def ROLE_PERMISSIONS_def ROLE_DESCRIPTIONS_def title_defs)

section \<open>The development user\<close>

text \<open>
  Claim C10. For the username \<^verbatim>\<open>37099475\<close> every successful authentication yields a
  role list that contains \<^verbatim>\<open>user\<close>, whatever the identity provider answers; when the
  filtered roles of the payload lack it, it is appended to them.
\<close>

theorem development_user_has_user_role:
  "(authenticate_user keycloak ''37099475'' password = Inr u \<longrightarrow> ''user'' \<in> set (roles u)) \<and>
   (''user'' \<notin> set (filtered_realm_roles ti @ filtered_client_roles ti) \<longrightarrow>
      authenticated_roles ''37099475'' ti =
        filtered_realm_roles ti @ filtered_client_roles ti @ [''user''])"
  by (auto simp add: authenticate_user_def authenticate_user_body_def authenticated_roles_def Let_def
      split: option.splits sum.splits if_splits)

theorem development_user_has_user_role_witness:
  "authenticate_user (Some provider_without_roles) ''37099475'' ''secret'' =
     Inr \<lparr>username = ''37099475'', email = None, first_name = None, last_name = None,
          roles = [''user''], user_id = ''id-1''\<rparr> \<and>
   filtered_realm_roles \<lparr>realm_access = None, resource_access = None\<rparr> @
     filtered_client_roles \<lparr>realm_access = None, resource_access = None\<rparr> = [] \<and>
   authenticated_roles ''37099475'' \<lparr>realm_access = None, resource_access = None\<rparr> = [''user'']"
  using development_user_has_user_role [of "Some provider_without_roles" "''secret''"
      "\<lparr>username = ''37099475'', email = None, first_name = None, last_name = None,
          roles = [''user''], user_id = ''id-1''\<rparr>"
      "\<lparr>realm_access = None, resource_access = None\<rparr>"]
  by (simp add: authenticate_user_def authenticate_user_body_def authenticated_roles_def Let_def
      provider_without_roles_def filtered_realm_roles_def filtered_client_roles_def)

section \<open>Password reset\<close>

text \<open>
  Claim C7. For every email address and every state of the admin client (absent,
  answering with no account, answering with an account, or failing), the handler of
  \<^verbatim>\<open>POST /auth/password-reset\<close> returns \<^verbatim>\<open>success = True\<close> with the one fixed message; so
  two runs that differ only in what the identity provider knows about the address give
  the same response.
\<close>

theorem password_reset_reveals_nothing:
  "request_password_reset admin email_address = Inr \<lparr>success = True, message = reset_message\<rparr> \<and>
   request_password_reset admin email_address = request_password_reset other_admin email_address"
proof -
  have r: "request_password_reset a e = Inr \<lparr>success = True, message = reset_message\<rparr>" for a e
    unfolding request_password_reset_def by (cases "send_password_reset_email a e") simp_all
  show ?thesis by (simp only: r)
qed

section \<open>Session tokens\<close>

lemma utc_seconds_mono: "a \<le> b \<Longrightarrow> utc_seconds a \<le> utc_seconds b"
  unfolding utc_seconds_def by (rule zdiv_mono1) simp_all

lemma json_strs_map: "json_strs (map JStr xs) = Some xs"
  by (induction xs) simp_all

lemma user_info_ignores_exp:
  "user_info_of_payload (data(''exp'' \<mapsto> e)) = user_info_of_payload data"
  by (simp add: user_info_of_payload_def)

lemma user_info_of_token_data: "user_info_of_payload (token_data u) = Inr u"
proof -
  have "optional_str_field (Some (json_opt v)) = Some v" for v
    by (cases v) (simp_all add: json_opt_def)
  then show ?thesis
    by (simp add: user_info_of_payload_def token_data_def json_strs_map)
qed

lemma issue_in_range:
  assumes "d \<noteq> 0" and "datetime_min \<le> now + d" and "now + d \<le> datetime_max"
  shows "create_access_token sign cfg now data (Some d) =
           Inr (Signed (data(''exp'' \<mapsto> JInt (utc_seconds (now + d))))
                  (sign (JWT_SECRET_KEY cfg) (data(''exp'' \<mapsto> JInt (utc_seconds (now + d))))))"
  using assms by (simp add: create_access_token_def datetime_add_def jwt_encode_def)

lemma issue_result:
  assumes "d \<noteq> 0" and "create_access_token sign cfg now data (Some d) = Inr token"
  shows "token = Signed (data(''exp'' \<mapsto> JInt (utc_seconds (now + d))))
                  (sign (JWT_SECRET_KEY cfg) (data(''exp'' \<mapsto> JInt (utc_seconds (now + d)))))"
  using assms
  by (auto simp add: create_access_token_def datetime_add_def jwt_encode_def split: if_splits)

lemma decode_fresh:
  assumes "now' \<le> expire" and "data ''sub'' = Some (JStr s)"
  shows "jwt_decode sign now'
           (Signed (data(''exp'' \<mapsto> JInt (utc_seconds expire)))
              (sign key (data(''exp'' \<mapsto> JInt (utc_seconds expire))))) key =
         Inr (data(''exp'' \<mapsto> JInt (utc_seconds expire)))"
proof -
  from assms(1) have "utc_seconds now' \<le> utc_seconds expire" by (rule utc_seconds_mono)
  then have "\<not> utc_seconds expire < utc_seconds now'" by simp
  with assms(2) show ?thesis by simp
qed

lemma roundtrip_claims:
  assumes "0 < ttl" and "datetime_min \<le> now" and "now + ttl \<le> datetime_max"
    and "now' \<le> now + ttl" and "data ''sub'' = Some (JStr s)"
  shows "\<exists>token. create_access_token sign cfg now data (Some ttl) = Inr token \<and>
           jwt_decode sign now' token (JWT_SECRET_KEY cfg) =
             Inr (data(''exp'' \<mapsto> JInt (utc_seconds (now + ttl)))) \<and>
           get_current_user sign cfg now' token = user_info_of_payload data"
proof -
  let ?p = "data(''exp'' \<mapsto> JInt (utc_seconds (now + ttl)))"
  let ?t = "Signed ?p (sign (JWT_SECRET_KEY cfg) ?p)"
  from assms(1,2) have "ttl \<noteq> 0" "datetime_min \<le> now + ttl" by simp_all
  then have i: "create_access_token sign cfg now data (Some ttl) = Inr ?t"
    using assms(3) by (rule issue_in_range)
  have d: "jwt_decode sign now' ?t (JWT_SECRET_KEY cfg) = Inr ?p"
    using assms(4,5) by (rule decode_fresh)
  have "get_current_user sign cfg now' ?t = user_info_of_payload data"
    unfolding get_current_user_def d by (simp add: assms(5) user_info_ignores_exp)
  with i d show ?thesis by blast
qed

text \<open>
  Claim C6, amended. For a claim set whose \<^verbatim>\<open>sub\<close> is a string, a positive lifetime \<open>ttl\<close>
  and a time \<open>now\<close> for which \<open>now + ttl\<close> is a \<^verbatim>\<open>datetime\<close>, issuing succeeds, and
  verifying the token at any time \<open>now'\<close> up to \<open>now + ttl\<close> succeeds: decoding returns the
  issued claim set with \<^verbatim>\<open>exp\<close> added and nothing else changed, and \<^verbatim>\<open>get_current_user\<close>
  returns the user read from the issued claims. For the claim set login issues for a user
  that is the user itself.
\<close>

theorem issue_verify_roundtrip:
  assumes "0 < ttl" and "datetime_min \<le> now" and "now + ttl \<le> datetime_max"
    and "now' \<le> now + ttl"
  shows "(data ''sub'' = Some (JStr s) \<longrightarrow>
           (\<exists>token. create_access_token sign cfg now data (Some ttl) = Inr token \<and>
              jwt_decode sign now' token (JWT_SECRET_KEY cfg) =
                Inr (data(''exp'' \<mapsto> JInt (utc_seconds (now + ttl)))) \<and>
              get_current_user sign cfg now' token = user_info_of_payload data)) \<and>
         (\<exists>token. create_access_token sign cfg now (token_data u) (Some ttl) = Inr token \<and>
              jwt_decode sign now' token (JWT_SECRET_KEY cfg) =
                Inr ((token_data u)(''exp'' \<mapsto> JInt (utc_seconds (now + ttl)))) \<and>
              get_current_user sign cfg now' token = Inr u)"
proof (intro conjI impI)
  assume "data ''sub'' = Some (JStr s)"
  with assms show "\<exists>token. create_access_token sign cfg now data (Some ttl) = Inr token \<and>
              jwt_decode sign now' token (JWT_SECRET_KEY cfg) =
                Inr (data(''exp'' \<mapsto> JInt (utc_seconds (now + ttl)))) \<and>
              get_current_user sign cfg now' token = user_info_of_payload data"
    by (rule roundtrip_claims)
next
  have s: "token_data u ''sub'' = Some (JStr (username u))"
    by (simp add: token_data_def)
  have "\<exists>token. create_access_token sign cfg now (token_data u) (Some ttl) = Inr token \<and>
              jwt_decode sign now' token (JWT_SECRET_KEY cfg) =
                Inr ((token_data u)(''exp'' \<mapsto> JInt (utc_seconds (now + ttl)))) \<and>
              get_current_user sign cfg now' token = user_info_of_payload (token_data u)"
    using assms s by (rule roundtrip_claims)
  then show "\<exists>token. create_access_token sign cfg now (token_data u) (Some ttl) = Inr token \<and>
              jwt_decode sign now' token (JWT_SECRET_KEY cfg) =
                Inr ((token_data u)(''exp'' \<mapsto> JInt (utc_seconds (now + ttl)))) \<and>
              get_current_user sign cfg now' token = Inr u"
    by (simp add: user_info_of_token_data)
qed

theorem issue_verify_roundtrip_witness:
  "(0::int) < 60000000 \<and> datetime_min \<le> 0 \<and> 0 + 60000000 \<le> datetime_max \<and>
   (30000000::int) \<le> 0 + 60000000 \<and> token_data alice ''sub'' = Some (JStr ''alice'') \<and>
   (\<exists>token. create_access_token sample_sign sample_settings 0 (token_data alice) (Some 60000000) =
        Inr token \<and>
      get_current_user sample_sign sample_settings 30000000 token = Inr alice)"
  using issue_verify_roundtrip [of 60000000 0 30000000 "token_data alice" "''alice''"
      sample_sign sample_settings alice]
  by (auto simp add: datetime_min_def datetime_max_def token_data_def alice_def)

text \<open>
  Claim C6 as stated fails: a token issued for a claim set without \<^verbatim>\<open>sub\<close> is refused by
  \<^verbatim>\<open>get_current_user\<close> at once, and a lifetime of 3000000 days takes the expiry past the
  last \<^verbatim>\<open>datetime\<close>, so that issuing raises \<^verbatim>\<open>OverflowError\<close>.
\<close>

theorem roundtrip_fails:
  "create_access_token sample_sign sample_settings 0 Map.empty (Some 60000000) =
     Inr (Signed [''exp'' \<mapsto> JInt 60] ''secret'') \<and>
   get_current_user sample_sign sample_settings 0 (Signed [''exp'' \<mapsto> JInt 60] ''secret'') =
     Inl (HTTPException 401 ''Could not validate credentials'') \<and>
   create_access_token sample_sign sample_settings 0 (token_data alice)
     (Some (3000000 * 86400000000)) = Inl OverflowError"
  by (simp add: create_access_token_def datetime_add_def datetime_min_def datetime_max_def
      jwt_encode_def sample_sign_def sample_settings_def utc_seconds_def get_current_user_def
      credentials_exception_def)

lemma decode_failure_unauthorized:
  "jwt_decode sign now token (JWT_SECRET_KEY cfg) = Inl e \<Longrightarrow>
   get_current_user sign cfg now token = Inl credentials_exception"
  by (simp add: get_current_user_def)

lemma decode_expired_issue:
  assumes "now \<le> now'"
    and "create_access_token sign cfg now data (Some (- 1000000)) = Inr token"
  shows "jwt_decode sign now' token (JWT_SECRET_KEY cfg) = Inl ExpiredSignatureError"
proof -
  have t: "token = Signed (data(''exp'' \<mapsto> JInt (utc_seconds (now + - 1000000))))
      (sign (JWT_SECRET_KEY cfg) (data(''exp'' \<mapsto> JInt (utc_seconds (now + - 1000000)))))"
    using _ assms(2) by (rule issue_result) simp
  have "utc_seconds (now + - 1000000) = utc_seconds now - 1"
    unfolding utc_seconds_def by simp
  moreover from assms(1) have "utc_seconds now \<le> utc_seconds now'" by (rule utc_seconds_mono)
  ultimately have "utc_seconds (now + - 1000000) < utc_seconds now'" by simp
  then show ?thesis unfolding t by simp
qed

text \<open>
  Claim C5, amended. Verification rejects, with the one response 401 \<^verbatim>\<open>Could not validate
  credentials\<close> and no claims, every token whose signature is not the one of its claim set
  (decoding fails as invalid), every token that cannot be parsed, every correctly signed
  token whose \<^verbatim>\<open>exp\<close> is present and in the past (decoding fails as expired), and every
  token whose \<^verbatim>\<open>sub\<close> is missing or null. In particular a token issued with a lifetime of
  minus one second fails as expired at every later time; it is issued whenever one second
  before \<open>now\<close> is a \<^verbatim>\<open>datetime\<close>.
\<close>

theorem verification_rejects:
  "(signature \<noteq> sign (JWT_SECRET_KEY cfg) payload \<longrightarrow>
      jwt_decode sign now (Signed payload signature) (JWT_SECRET_KEY cfg) = Inl JWTError \<and>
      get_current_user sign cfg now (Signed payload signature) = Inl credentials_exception) \<and>
   get_current_user sign cfg now (Unparseable t) = Inl credentials_exception \<and>
   (payload ''exp'' = Some (JInt e) \<and> e < utc_seconds now \<longrightarrow>
      jwt_decode sign now (Signed payload (sign (JWT_SECRET_KEY cfg) payload)) (JWT_SECRET_KEY cfg) =
        Inl ExpiredSignatureError \<and>
      get_current_user sign cfg now (Signed payload signature) = Inl credentials_exception) \<and>
   (now \<le> now' \<and> create_access_token sign cfg now data (Some (- 1000000)) = Inr token \<longrightarrow>
      jwt_decode sign now' token (JWT_SECRET_KEY cfg) = Inl ExpiredSignatureError \<and>
      get_current_user sign cfg now' token = Inl credentials_exception) \<and>
   (datetime_min + 1000000 \<le> now \<and> now \<le> datetime_max \<longrightarrow>
      (\<exists>issued. create_access_token sign cfg now data (Some (- 1000000)) = Inr issued)) \<and>
   (payload ''sub'' = None \<or> payload ''sub'' = Some JNull \<longrightarrow>
      get_current_user sign cfg now (Signed payload signature) = Inl credentials_exception)"
proof (intro conjI impI)
  assume "signature \<noteq> sign (JWT_SECRET_KEY cfg) payload"
  then show d: "jwt_decode sign now (Signed payload signature) (JWT_SECRET_KEY cfg) = Inl JWTError"
    by simp
  then show "get_current_user sign cfg now (Signed payload signature) = Inl credentials_exception"
    by (rule decode_failure_unauthorized)
next
  show "get_current_user sign cfg now (Unparseable t) = Inl credentials_exception"
    by (simp add: get_current_user_def)
next
  assume "payload ''exp'' = Some (JInt e) \<and> e < utc_seconds now"
  then show "jwt_decode sign now (Signed payload (sign (JWT_SECRET_KEY cfg) payload))
      (JWT_SECRET_KEY cfg) = Inl ExpiredSignatureError"
    by simp
next
  assume "payload ''exp'' = Some (JInt e) \<and> e < utc_seconds now"
  then have "jwt_decode sign now (Signed payload signature) (JWT_SECRET_KEY cfg) =
      Inl (if signature \<noteq> sign (JWT_SECRET_KEY cfg) payload then JWTError else ExpiredSignatureError)"
    by simp
  then show "get_current_user sign cfg now (Signed payload signature) = Inl credentials_exception"
    by (rule decode_failure_unauthorized)
next
  assume a: "now \<le> now' \<and> create_access_token sign cfg now data (Some (- 1000000)) = Inr token"
  then have "now \<le> now'" and "create_access_token sign cfg now data (Some (- 1000000)) = Inr token"
    by simp_all
  then show d: "jwt_decode sign now' token (JWT_SECRET_KEY cfg) = Inl ExpiredSignatureError"
    by (rule decode_expired_issue)
  then show "get_current_user sign cfg now' token = Inl credentials_exception"
    by (rule decode_failure_unauthorized)
next
  assume "datetime_min + 1000000 \<le> now \<and> now \<le> datetime_max"
  then have "datetime_min \<le> now + - 1000000" "now + - 1000000 \<le> datetime_max" by simp_all
  with issue_in_range[of "- 1000000" now sign cfg data]
  show "\<exists>issued. create_access_token sign cfg now data (Some (- 1000000)) = Inr issued"
    by simp
next
  assume s: "payload ''sub'' = None \<or> payload ''sub'' = Some JNull"
  show "get_current_user sign cfg now (Signed payload signature) = Inl credentials_exception"
  proof (cases "jwt_decode sign now (Signed payload signature) (JWT_SECRET_KEY cfg)")
    case (Inl a)
    then show ?thesis by (rule decode_failure_unauthorized)
  next
    case (Inr p)
    then have "p = payload"
      by (auto split: if_splits option.splits json.splits)
    with Inr s show ?thesis
      by (auto simp add: get_current_user_def)
  qed
qed

theorem verification_rejects_witness:
  "''forged'' \<noteq> sample_sign (JWT_SECRET_KEY sample_settings) (token_data alice) \<and>
   get_current_user sample_sign sample_settings 7000000 (Signed (token_data alice) ''forged'') =
     Inl credentials_exception \<and>
   ((token_data alice)(''exp'' \<mapsto> JInt 3)) ''exp'' = Some (JInt 3) \<and> 3 < utc_seconds 7000000 \<and>
   jwt_decode sample_sign 7000000
     (Signed ((token_data alice)(''exp'' \<mapsto> JInt 3))
        (sample_sign (JWT_SECRET_KEY sample_settings) ((token_data alice)(''exp'' \<mapsto> JInt 3))))
     (JWT_SECRET_KEY sample_settings) = Inl ExpiredSignatureError \<and>
   (7000000::int) \<le> 7000001 \<and> datetime_min + 1000000 \<le> 7000000 \<and> 7000000 \<le> datetime_max \<and>
   create_access_token sample_sign sample_settings 7000000 (token_data alice) (Some (- 1000000)) =
     Inr (Signed ((token_data alice)(''exp'' \<mapsto> JInt 6)) ''secretalice'') \<and>
   get_current_user sample_sign sample_settings 7000001
     (Signed ((token_data alice)(''exp'' \<mapsto> JInt 6)) ''secretalice'') = Inl credentials_exception \<and>
   Map.empty ''sub'' = (None :: json option) \<and>
   get_current_user sample_sign sample_settings 7000000 (Signed Map.empty ''secret'') =
     Inl credentials_exception"
  using verification_rejects [of "''forged''" sample_sign sample_settings "token_data alice" 7000000]
    verification_rejects [of _ sample_sign sample_settings "(token_data alice)(''exp'' \<mapsto> JInt 3)"
      7000000 _ 3]
    verification_rejects [of _ sample_sign sample_settings _ 7000000 _ _ 7000001 "token_data alice"
      "Signed ((token_data alice)(''exp'' \<mapsto> JInt 6)) ''secretalice''"]
    verification_rejects [of "''secret''" sample_sign sample_settings Map.empty 7000000]
  by (simp add: sample_sign_def sample_settings_def token_data_def alice_def utc_seconds_def
      create_access_token_def datetime_add_def datetime_min_def datetime_max_def jwt_encode_def)

text \<open>
  Claim C5 as stated fails: a correctly signed token that has a \<^verbatim>\<open>sub\<close> and no \<^verbatim>\<open>exp\<close>
  is accepted.
\<close>

theorem token_without_exp_accepted:
  "get_current_user sample_sign sample_settings 0 token_without_exp =
     Inr \<lparr>username = [], email = None, first_name = None, last_name = None,
          roles = [], user_id = []\<rparr>"
  by (simp add: get_current_user_def token_without_exp_def sample_sign_def sample_settings_def
      user_info_of_payload_def)

section \<open>User profiles\<close>

lemma find_keycloak_id:
  "list_ex (\<lambda>r. keycloak_id r = k) rs \<Longrightarrow> \<exists>r. find (\<lambda>r. keycloak_id r = k) rs = Some r"
  by (induction rs) auto

lemma insert_columns_keys:
  "insert_columns u = Inr row \<Longrightarrow> keycloak_id row = keycloak_id u"
  by (auto simp add: insert_columns_def split: if_splits option.splits)

lemma insert_columns_error:
  "insert_columns u = Inl e \<Longrightarrow> e = nul_error \<or> e = data_error"
  by (auto simp add: insert_columns_def split: if_splits option.splits)

lemma varchar_fits: "fits n v \<Longrightarrow> varchar n v = Some v"
  by (cases v) (simp_all add: varchar_def fits_def)

lemma insert_columns_storable:
  assumes "new_profile_storable p"
  shows "insert_columns (new_user k p) = Inr (new_user k p)"
proof -
  from assms have n: "\<not> list_ex contains_nul
      [Some (new_full_name p), new_phone p, new_address p, new_city p, new_country p, new_timezone p]"
    by (simp add: new_profile_storable_def contains_nul_def)
  from assms have v: "varchar 255 (Some (new_full_name p)) = Some (Some (new_full_name p))"
      "varchar 50 (new_phone p) = Some (new_phone p)"
      "varchar 255 (new_city p) = Some (new_city p)"
      "varchar 255 (new_country p) = Some (new_country p)"
      "varchar 100 (new_timezone p) = Some (new_timezone p)"
    by (simp_all add: new_profile_storable_def varchar_fits fits_def)
  show ?thesis
    unfolding insert_columns_def using n by (simp add: new_user_def v)
qed

lemma insert_user_existing:
  assumes "list_ex (\<lambda>r. keycloak_id r = keycloak_id u) d"
  shows "insert_user now new_id d u =
           (case insert_columns u of Inl e \<Rightarrow> Inl e | Inr row \<Rightarrow> Inl IntegrityError)"
proof (cases "insert_columns u")
  case (Inl e)
  then show ?thesis by (simp add: insert_user_def)
next
  case (Inr row)
  then have "keycloak_id row = keycloak_id u" by (rule insert_columns_keys)
  with assms have "list_ex (\<lambda>r. keycloak_id r = keycloak_id row \<or> id_col r = new_id) d"
    by (auto simp add: list_ex_iff)
  with Inr show ?thesis by (simp add: insert_user_def)
qed

lemma create_existing:
  assumes "UUID kid = Some k" and "list_ex (\<lambda>r. keycloak_id r = k) d"
  shows "create_user_profile UUID now new_id d kid p =
           (case insert_columns (new_user k p) of
              Inl e \<Rightarrow> (if e = nul_error
                         then Inl (ValueError (''Invalid data format: '' @
                                ''A string literal cannot contain NUL (0x00) characters.''))
                         else Inl data_error, d)
            | Inr row \<Rightarrow> (Inl (ValueError ''User profile already exists''), d))"
proof -
  have k: "list_ex (\<lambda>r. keycloak_id r = keycloak_id (new_user k p)) d"
    using assms(2) by (simp add: new_user_def)
  show ?thesis
  proof (cases "insert_columns (new_user k p)")
    case (Inl e)
    then have "e = nul_error \<or> e = data_error" by (rule insert_columns_error)
    with Inl assms(1) show ?thesis
      by (auto simp add: create_user_profile_def insert_user_existing[OF k] nul_error_def
          data_error_def)
  next
    case (Inr row)
    with assms(1) show ?thesis
      by (simp add: create_user_profile_def insert_user_existing[OF k])
  qed
qed

lemma insert_user_invariant:
  assumes "db_invariant d" and "insert_user now new_id d u = Inr (stored, d')"
  shows "db_invariant d'"
proof -
  from assms(2) obtain row where row: "insert_columns u = Inr row"
    and n: "\<not> list_ex (\<lambda>r. keycloak_id r = keycloak_id row \<or> id_col r = new_id) d"
    and s: "stored = row\<lparr>id_col := new_id, created_at := now, updated_at := now\<rparr>"
    and d': "d' = d @ [stored]"
    by (auto simp add: insert_user_def Let_def split: sum.splits if_splits)
  from n have "keycloak_id row \<notin> set (map keycloak_id d)" "new_id \<notin> set (map id_col d)"
    by (auto simp add: list_ex_iff)
  with assms(1) show ?thesis
    unfolding d' s by (simp add: db_invariant_def)
qed

lemma create_user_profile_cases:
  "snd (create_user_profile UUID now new_id d kid p) = d \<or>
   (\<exists>u stored. insert_user now new_id d u =
      Inr (stored, snd (create_user_profile UUID now new_id d kid p)))"
  by (auto simp add: create_user_profile_def split: option.splits sum.splits exn.splits)

text \<open>
  Claim C8, amended. For every identity that already has a profile row, the handler of
  \<^verbatim>\<open>POST /users/me\<close> fails with HTTP 409 and leaves the table as it was; the rejection is
  the handler's own check of \<^verbatim>\<open>get_user_by_keycloak_id\<close>. \<^verbatim>\<open>create_user_profile\<close> has no
  such check: called for such an identity it fails and leaves the table as it was, and
  when the attributes can be stored as they are (no NUL character, none longer than its
  column) the failure is the uniqueness constraint's, raised as \<^verbatim>\<open>ValueError\<close>
  \<^verbatim>\<open>User profile already exists\<close>. Every call of \<^verbatim>\<open>create_user_profile\<close> keeps the rows of
  the table distinct in \<^verbatim>\<open>keycloak_id\<close>.
\<close>

theorem create_existing_profile:
  "(UUID (user_id current_user) = Some k \<and> list_ex (\<lambda>r. keycloak_id r = k) d \<longrightarrow>
      create_my_profile UUID now new_id d current_user profile_data =
        (Inl (HTTPException 409 ''User profile already exists. Use PUT to update.''), d) \<and>
      snd (create_user_profile UUID now new_id d (user_id current_user) profile_data) = d \<and>
      (\<exists>e. fst (create_user_profile UUID now new_id d (user_id current_user) profile_data) = Inl e) \<and>
      (new_profile_storable profile_data \<longrightarrow>
         fst (create_user_profile UUID now new_id d (user_id current_user) profile_data) =
           Inl (ValueError ''User profile already exists''))) \<and>
   (db_invariant d \<longrightarrow>
      db_invariant (snd (create_user_profile UUID now new_id d kid profile_data)) \<and>
      distinct (map keycloak_id (snd (create_user_profile UUID now new_id d kid profile_data))))"
proof (intro conjI impI)
  assume a: "UUID (user_id current_user) = Some k \<and> list_ex (\<lambda>r. keycloak_id r = k) d"
  then have u: "UUID (user_id current_user) = Some k" and l: "list_ex (\<lambda>r. keycloak_id r = k) d"
    by simp_all
  from l obtain r where r: "find (\<lambda>r. keycloak_id r = k) d = Some r"
    using find_keycloak_id by blast
  from u r show "create_my_profile UUID now new_id d current_user profile_data =
        (Inl (HTTPException 409 ''User profile already exists. Use PUT to update.''), d)"
    by (simp add: create_my_profile_def create_my_profile_body_def get_user_by_keycloak_id_def
        profile_conflict_def)
  have c: "create_user_profile UUID now new_id d (user_id current_user) profile_data =
           (case insert_columns (new_user k profile_data) of
              Inl e \<Rightarrow> (if e = nul_error
                         then Inl (ValueError (''Invalid data format: '' @
                                ''A string literal cannot contain NUL (0x00) characters.''))
                         else Inl data_error, d)
            | Inr row \<Rightarrow> (Inl (ValueError ''User profile already exists''), d))"
    using u l by (rule create_existing)
  show "snd (create_user_profile UUID now new_id d (user_id current_user) profile_data) = d"
    unfolding c by (simp split: sum.splits)
  show "\<exists>e. fst (create_user_profile UUID now new_id d (user_id current_user) profile_data) = Inl e"
    unfolding c by (simp split: sum.splits)
  assume "new_profile_storable profile_data"
  then have "insert_columns (new_user k profile_data) = Inr (new_user k profile_data)"
    by (rule insert_columns_storable)
  then show "fst (create_user_profile UUID now new_id d (user_id current_user) profile_data) =
           Inl (ValueError ''User profile already exists'')"
    unfolding c by simp
next
  assume i: "db_invariant d"
  show c: "db_invariant (snd (create_user_profile UUID now new_id d kid profile_data))"
    using create_user_profile_cases[of UUID now new_id d kid profile_data] i
    by (auto intro: insert_user_invariant)
  then show "distinct (map keycloak_id (snd (create_user_profile UUID now new_id d kid profile_data)))"
    by (simp add: db_invariant_def)
qed

theorem create_existing_profile_witness:
  "sample_uuid (user_id alice) = Some 7 \<and> list_ex (\<lambda>r. keycloak_id r = 7) sample_db \<and>
   new_profile_storable sample_profile \<and> db_invariant sample_db \<and>
   create_my_profile sample_uuid 500 2 sample_db alice sample_profile =
     (Inl (HTTPException 409 ''User profile already exists. Use PUT to update.''), sample_db) \<and>
   create_user_profile sample_uuid 500 2 sample_db ''id-7'' sample_profile =
     (Inl (ValueError ''User profile already exists''), sample_db) \<and>
   map keycloak_id (snd (create_user_profile sample_uuid 500 2 sample_db ''id-8'' sample_profile)) =
     [7, 8]"
  using create_existing_profile [of sample_uuid alice 7 sample_db 500 2 sample_profile "''id-8''"]
  by (simp add: sample_uuid_def alice_def sample_db_def alice_row_def sample_profile_def
      new_profile_storable_def fits_def db_invariant_def create_user_profile_def insert_user_def
      insert_columns_def new_user_def contains_nul_def varchar_def NUL_def Let_def prod_eq_iff)

text \<open>
  Claim C8 as stated fails: the rejection that the uniqueness constraint enforces is the
  \<^verbatim>\<open>ValueError\<close> of \<^verbatim>\<open>create_user_profile\<close>, which the handler of \<^verbatim>\<open>POST /users/me\<close> turns
  into HTTP 400; the 409 comes from the handler's check before the insert.
\<close>

theorem constraint_rejection_is_not_conflict:
  "get_user_by_keycloak_id sample_uuid sample_db (user_id alice) = Inr (Some alice_row) \<and>
   fst (create_user_profile sample_uuid 500 2 sample_db (user_id alice) sample_profile) =
     Inl (ValueError ''User profile already exists'') \<and>
   handler_except ''Error creating user profile'' (ValueError ''User profile already exists'') =
     HTTPException 400 ''User profile already exists''"
  by (simp add: get_user_by_keycloak_id_def sample_uuid_def alice_def sample_db_def alice_row_def
      sample_profile_def create_user_profile_def insert_user_def insert_columns_def new_user_def
      contains_nul_def varchar_def NUL_def Let_def)

lemma find_replaced:
  assumes "u \<in> set rs" and "id_col c = id_col u"
  shows "find (\<lambda>r. id_col r = id_col u) (map (\<lambda>r. if id_col r = id_col u then c else r) rs) =
           Some c"
  using assms by (induction rs) auto

lemma find_own_row:
  assumes "distinct (map id_col rs)" and "u \<in> set rs"
  shows "find (\<lambda>r. id_col r = id_col u) rs = Some u"
  using assms by (induction rs) (auto simp add: rev_image_eqI)

lemma overwrite_no_nul:
  "\<not> contains_nul p \<Longrightarrow> \<not> nul_bound old (overwrite p old)"
  by (cases p) (simp_all add: nul_bound_def overwrite_def)

lemma overwrite_varchar:
  "fits n p \<Longrightarrow> varchar_bound n old (overwrite p old) = Some (overwrite p old)"
  by (cases p) (simp_all add: varchar_bound_def overwrite_def varchar_def fits_def)

lemma update_columns_storable:
  assumes "patch_storable p"
  shows "update_columns user (apply_update user p) = Inr (apply_update user p)"
proof -
  from assms have n:
      "\<not> nul_bound (full_name user) (overwrite (upd_full_name p) (full_name user))"
      "\<not> nul_bound (phone user) (overwrite (upd_phone p) (phone user))"
      "\<not> nul_bound (address user) (overwrite (upd_address p) (address user))"
      "\<not> nul_bound (city user) (overwrite (upd_city p) (city user))"
      "\<not> nul_bound (country user) (overwrite (upd_country p) (country user))"
      "\<not> nul_bound (timezone user) (overwrite (upd_timezone p) (timezone user))"
    by (simp_all add: patch_storable_def overwrite_no_nul)
  from assms have v:
      "varchar_bound 255 (full_name user) (overwrite (upd_full_name p) (full_name user)) =
         Some (overwrite (upd_full_name p) (full_name user))"
      "varchar_bound 50 (phone user) (overwrite (upd_phone p) (phone user)) =
         Some (overwrite (upd_phone p) (phone user))"
      "varchar_bound 255 (city user) (overwrite (upd_city p) (city user)) =
         Some (overwrite (upd_city p) (city user))"
      "varchar_bound 255 (country user) (overwrite (upd_country p) (country user)) =
         Some (overwrite (upd_country p) (country user))"
      "varchar_bound 100 (timezone user) (overwrite (upd_timezone p) (timezone user)) =
         Some (overwrite (upd_timezone p) (timezone user))"
    by (simp_all add: patch_storable_def overwrite_varchar)
  show ?thesis
    by (simp add: update_columns_def apply_update_def n v)
qed

lemma apply_update_fields:
  "field_after (upd_full_name p) (full_name u) (full_name (apply_update u p)) \<and>
   field_after (upd_phone p) (phone u) (phone (apply_update u p)) \<and>
   field_after (upd_address p) (address u) (address (apply_update u p)) \<and>
   field_after (upd_city p) (city u) (city (apply_update u p)) \<and>
   field_after (upd_country p) (country u) (country (apply_update u p)) \<and>
   field_after (upd_timezone p) (timezone u) (timezone (apply_update u p)) \<and>
   id_col (apply_update u p) = id_col u \<and> keycloak_id (apply_update u p) = keycloak_id u \<and>
   created_at (apply_update u p) = created_at u \<and> updated_at (apply_update u p) = updated_at u"
  by (simp add: apply_update_def field_after_def overwrite_def split: option.splits)

lemma update_user_profile_result:
  assumes "db_invariant d" and "user \<in> set d" and "patch_storable p"
  shows "fst (update_user_profile now d user p) =
           Inr ((apply_update user p)
                  \<lparr>updated_at := (if columns_equal user (apply_update user p)
                                   then updated_at user else now)\<rparr>)"
proof (cases "columns_equal user (apply_update user p)")
  case True
  from assms(1) have "distinct (map id_col d)" by (simp add: db_invariant_def)
  then have f: "find (\<lambda>r. id_col r = id_col user) d = Some user"
    using assms(2) by (rule find_own_row)
  from True have e: "apply_update user p = user"
    by (simp add: columns_equal_def apply_update_def)
  from True f show ?thesis
    by (simp add: update_user_profile_def flush_user_def refresh_def e)
next
  case False
  have i: "id_col ((apply_update user p)\<lparr>updated_at := now\<rparr>) = id_col user"
    by (simp add: apply_update_def)
  have "find (\<lambda>r. id_col r = id_col user)
          (map (\<lambda>r. if id_col r = id_col user then (apply_update user p)\<lparr>updated_at := now\<rparr> else r)
             d) = Some ((apply_update user p)\<lparr>updated_at := now\<rparr>)"
    using assms(2) i by (rule find_replaced)
  with False show ?thesis
    by (simp add: update_user_profile_def flush_user_def refresh_def
        update_columns_storable[OF assms(3)])
qed

text \<open>
  Claim C9, amended. For a row of the table and a patch whose values can be stored as they
  are (no NUL character, none longer than its column), \<^verbatim>\<open>update_user_profile\<close> returns the
  row with exactly the fields overwritten that the patch provides (not \<open>None\<close>); every
  other field, the keys and \<^verbatim>\<open>created_at\<close> keep their values. \<^verbatim>\<open>updated_at\<close> is set to the
  time of the update when at least one column gets a new value, and keeps its value when
  none does.
\<close>

theorem update_overwrites_provided_fields:
  assumes "db_invariant d" and "user \<in> set d" and "patch_storable p"
  shows "\<exists>r. fst (update_user_profile now d user p) = Inr r \<and>
           field_after (upd_full_name p) (full_name user) (full_name r) \<and>
           field_after (upd_phone p) (phone user) (phone r) \<and>
           field_after (upd_address p) (address user) (address r) \<and>
           field_after (upd_city p) (city user) (city r) \<and>
           field_after (upd_country p) (country user) (country r) \<and>
           field_after (upd_timezone p) (timezone user) (timezone r) \<and>
           id_col r = id_col user \<and> keycloak_id r = keycloak_id user \<and>
           created_at r = created_at user \<and>
           updated_at r = (if columns_equal user r then updated_at user else now)"
proof -
  let ?r = "(apply_update user p)
              \<lparr>updated_at := (if columns_equal user (apply_update user p)
                               then updated_at user else now)\<rparr>"
  have r: "fst (update_user_profile now d user p) = Inr ?r"
    using assms by (rule update_user_profile_result)
  have c: "columns_equal user ?r = columns_equal user (apply_update user p)"
    by (simp add: columns_equal_def)
  have u: "updated_at ?r = (if columns_equal user ?r then updated_at user else now)"
    unfolding c by simp
  from apply_update_fields[of p user] have
    "field_after (upd_full_name p) (full_name user) (full_name ?r) \<and>
     field_after (upd_phone p) (phone user) (phone ?r) \<and>
     field_after (upd_address p) (address user) (address ?r) \<and>
     field_after (upd_city p) (city user) (city ?r) \<and>
     field_after (upd_country p) (country user) (country ?r) \<and>
     field_after (upd_timezone p) (timezone user) (timezone ?r) \<and>
     id_col ?r = id_col user \<and> keycloak_id ?r = keycloak_id user \<and>
     created_at ?r = created_at user"
    by simp
  with r u show ?thesis by blast
qed

theorem update_overwrites_provided_fields_witness:
  "db_invariant sample_db \<and> alice_row \<in> set sample_db \<and> patch_storable country_patch \<and>
   fst (update_user_profile 500 sample_db alice_row country_patch) =
     Inr (alice_row\<lparr>country := Some ''B'', updated_at := 500\<rparr>) \<and>
   city (alice_row\<lparr>country := Some ''B'', updated_at := 500\<rparr>) = Some ''A''"
  using update_overwrites_provided_fields [of sample_db alice_row country_patch 500]
  by (simp add: sample_db_def alice_row_def country_patch_def empty_patch_def db_invariant_def
      patch_storable_def contains_nul_def NUL_def fits_def apply_update_def overwrite_def
      update_user_profile_def flush_user_def refresh_def columns_equal_def update_columns_def
      nul_bound_def varchar_bound_def varchar_def)

text \<open>
  Claim C9 as stated fails: an update with a patch that provides nothing changes no
  column, no UPDATE is emitted, and \<^verbatim>\<open>updated_at\<close> keeps the value it had.
\<close>

theorem empty_patch_keeps_updated_at:
  "update_user_profile 500 sample_db alice_row empty_patch = (Inr alice_row, sample_db) \<and>
   updated_at alice_row = 100"
  by (simp add: sample_db_def alice_row_def empty_patch_def apply_update_def overwrite_def
      update_user_profile_def flush_user_def refresh_def columns_equal_def)

end
